theory Spec2Isabelle
  imports Complex_Main "HOL-Library.Stream"
begin

section \<open>Python values, errors and attributes\<close>

text \<open>
  The scenes of \<^verbatim>\<open>motion_imitation/envs/scenes\<close> are Python classes that draw random
  numbers from process-wide streams and submit geometry to a physics engine. Python
  floats are modelled as exact rationals (rounding is not modelled), Python ints as
  \<open>int\<close>, an exception as the \<open>Inl\<close> branch of a sum.
\<close>

datatype error =
    ValueError
  | AttributeError
  | NameError string
  | UnboundLocalError string
  | IndexError
  | ZeroDivisionError

text \<open>
  An instance attribute exists only once it has been assigned: \<open>Unset\<close> is an attribute
  that no statement has assigned yet, and reading it raises AttributeError.
\<close>

datatype 'a attr = Unset | Attr 'a

definition get_attr :: "'a attr \<Rightarrow> error + 'a" where
  "get_attr a = (case a of Unset \<Rightarrow> Inl AttributeError | Attr v \<Rightarrow> Inr v)"

text \<open>\<^verbatim>\<open>xs[i] = v\<close> on a list, for an index that is not negative.\<close>

definition set_item :: "'a list \<Rightarrow> nat \<Rightarrow> 'a \<Rightarrow> error + 'a list" where
  "set_item xs i v = (if i < length xs then Inr (xs[i := v]) else Inl IndexError)"

section \<open>The random streams\<close>

text \<open>
  A generator state is the stream of the 53-bit integers it will produce; \<^verbatim>\<open>random()\<close>
  returns the next one divided by \<open>2 ^ 53\<close>, a value in \<open>[0, 1)\<close>, and both
  \<^verbatim>\<open>random.uniform(a, b)\<close> and \<^verbatim>\<open>np.random.uniform(a, b)\<close> compute
  \<open>a + (b - a) * random()\<close>. How a seed is turned into a state belongs to the libraries
  and is a parameter of the model.
\<close>

type_synonym rng = "nat stream"

definition random_sample :: "rng \<Rightarrow> rat \<times> rng" where
  "random_sample g = (of_nat (shd g mod 2 ^ 53) / 2 ^ 53, stl g)"

definition uniform :: "rat \<Rightarrow> rat \<Rightarrow> rng \<Rightarrow> rat \<times> rng" where
  "uniform a b g = (case random_sample g of (u, g') \<Rightarrow> (a + (b - a) * u, g'))"

record prng_lib =
  py_init :: "int \<Rightarrow> rng"
  np_init :: "int \<Rightarrow> rng"

section \<open>The physics engine and the world\<close>

type_synonym handle = int
type_synonym client = nat
type_synonym vec3 = "rat \<times> rat \<times> rat"
type_synonym quaternion = "rat \<times> rat \<times> rat \<times> rat"

datatype debug_flag = COV_ENABLE_RENDERING

datatype call =
    ConfigureDebugVisualizer debug_flag int
  | SetAdditionalSearchPath string
  | CreateCollisionShapeHeightfield vec3 rat "rat list" int int
  | CreateMultiBody rat handle
  | ResetBasePositionAndOrientation handle vec3 quaternion
  | ChangeVisualShape handle int "rat list"
  | CreateBoxCollisionShape vec3
  | CreateBody rat handle vec3 quaternion
  | SetVisualTint handle "rat list"

record engine =
  calls :: "call list"
  next_shape :: handle
  next_body :: handle

record world =
  py_random :: rng
  np_random :: rng
  os_entropy :: "rng stream"
  sim :: engine

text \<open>\<^verbatim>\<open>random.seed(a)\<close>: an integer fixes the state, \<^verbatim>\<open>None\<close> takes it from the system.\<close>

definition py_seed :: "prng_lib \<Rightarrow> int option \<Rightarrow> world \<Rightarrow> world" where
  "py_seed lib a w =
     (case a of
        Some k \<Rightarrow> w\<lparr>py_random := py_init lib k\<rparr>
      | None \<Rightarrow> w\<lparr>py_random := shd (os_entropy w), os_entropy := stl (os_entropy w)\<rparr>)"

definition np_seed :: "prng_lib \<Rightarrow> int option \<Rightarrow> world \<Rightarrow> world" where
  "np_seed lib a w =
     (case a of
        Some k \<Rightarrow> w\<lparr>np_random := np_init lib k\<rparr>
      | None \<Rightarrow> w\<lparr>np_random := shd (os_entropy w), os_entropy := stl (os_entropy w)\<rparr>)"

definition py_uniform :: "rat \<Rightarrow> rat \<Rightarrow> world \<Rightarrow> rat \<times> world" where
  "py_uniform a b w = (case uniform a b (py_random w) of (x, g) \<Rightarrow> (x, w\<lparr>py_random := g\<rparr>))"

definition np_uniform :: "rat \<Rightarrow> rat \<Rightarrow> world \<Rightarrow> rat \<times> world" where
  "np_uniform a b w = (case uniform a b (np_random w) of (x, g) \<Rightarrow> (x, w\<lparr>np_random := g\<rparr>))"

text \<open>
  A call through the engine handle. A handle that is \<^verbatim>\<open>None\<close> has no methods, so the
  call raises AttributeError and reaches no engine. The engine records every call in
  order and numbers the shapes and the bodies it creates.
\<close>

definition log_call :: "call \<Rightarrow> world \<Rightarrow> world" where
  "log_call k w = w\<lparr>sim := (sim w)\<lparr>calls := calls (sim w) @ [k]\<rparr>\<rparr>"

definition engine_do :: "client option \<Rightarrow> call \<Rightarrow> world \<Rightarrow> (error + unit) \<times> world" where
  "engine_do c k w = (case c of None \<Rightarrow> (Inl AttributeError, w) | Some _ \<Rightarrow> (Inr (), log_call k w))"

definition engine_new_shape :: "client option \<Rightarrow> call \<Rightarrow> world \<Rightarrow> (error + handle) \<times> world" where
  "engine_new_shape c k w =
     (case c of
        None \<Rightarrow> (Inl AttributeError, w)
      | Some _ \<Rightarrow>
          (Inr (next_shape (sim w)),
           log_call k (w\<lparr>sim := (sim w)\<lparr>next_shape := next_shape (sim w) + 1\<rparr>\<rparr>)))"

definition engine_new_body :: "client option \<Rightarrow> call \<Rightarrow> world \<Rightarrow> (error + handle) \<times> world" where
  "engine_new_body c k w =
     (case c of
        None \<Rightarrow> (Inl AttributeError, w)
      | Some _ \<Rightarrow>
          (Inr (next_body (sim w)),
           log_call k (w\<lparr>sim := (sim w)\<lparr>next_body := next_body (sim w) + 1\<rparr>\<rparr>)))"

section \<open>Block noise: the loop of both heightfield generators\<close>

text \<open>
  \<^verbatim>\<open>
  heightfieldData = [0]*self._num_rows*self._num_columns
  for j in range (int(self._num_columns/2)):
      for i in range (int(self._num_rows/2) ):
          height = random.uniform(0,self._height_range*5)
          heightfieldData[2*i+2*j*self._num_rows]=height
          heightfieldData[2*i+1+2*j*self._num_rows]=height
          heightfieldData[2*i+(2*j+1)*self._num_rows]=height
          heightfieldData[2*i+1+(2*j+1)*self._num_rows]=height
  \<close>
  \<^verbatim>\<open>Terrain.generate_terrain\<close> has the same loop with \<^verbatim>\<open>height_perturbation_range\<close> as the
  upper end. The list has \<open>nat rows * nat columns\<close> cells (a negative factor gives the
  empty list), \<^verbatim>\<open>range(int(n/2))\<close> is empty for \<open>n \<le> 1\<close> and runs to \<open>n div 2\<close>
  otherwise, and inside the inner loop \<open>rows\<close> is at least 2, so the indices are computed
  over \<open>nat\<close>.
\<close>

definition write_block :: "nat \<Rightarrow> nat \<Rightarrow> nat \<Rightarrow> rat \<Rightarrow> rat list \<Rightarrow> error + rat list" where
  "write_block rows i j height d0 =
     (case set_item d0 (2 * i + 2 * j * rows) height of Inl e \<Rightarrow> Inl e | Inr d1 \<Rightarrow>
     (case set_item d1 (2 * i + 1 + 2 * j * rows) height of Inl e \<Rightarrow> Inl e | Inr d2 \<Rightarrow>
     (case set_item d2 (2 * i + (2 * j + 1) * rows) height of Inl e \<Rightarrow> Inl e | Inr d3 \<Rightarrow>
      set_item d3 (2 * i + 1 + (2 * j + 1) * rows) height)))"

primrec rows_loop ::
  "nat \<Rightarrow> rat \<Rightarrow> nat \<Rightarrow> nat list \<Rightarrow> rat list \<Rightarrow> world \<Rightarrow> (error + rat list) \<times> world" where
  "rows_loop rows hi j [] d w = (Inr d, w)"
| "rows_loop rows hi j (i # is) d w =
     (case py_uniform 0 hi w of (height, w') \<Rightarrow>
     (case write_block rows i j height d of
        Inl e \<Rightarrow> (Inl e, w')
      | Inr d' \<Rightarrow> rows_loop rows hi j is d' w'))"

primrec columns_loop ::
  "nat \<Rightarrow> rat \<Rightarrow> nat list \<Rightarrow> nat list \<Rightarrow> rat list \<Rightarrow> world \<Rightarrow> (error + rat list) \<times> world" where
  "columns_loop rows hi is [] d w = (Inr d, w)"
| "columns_loop rows hi is (j # js) d w =
     (case rows_loop rows hi j is d w of
        (Inl e, w') \<Rightarrow> (Inl e, w')
      | (Inr d', w') \<Rightarrow> columns_loop rows hi is js d' w')"

definition block_noise :: "int \<Rightarrow> int \<Rightarrow> rat \<Rightarrow> world \<Rightarrow> (error + rat list) \<times> world" where
  "block_noise rows columns hi w =
     columns_loop (nat rows) hi [0..<nat (rows div 2)] [0..<nat (columns div 2)]
       (replicate (nat rows * nat columns) 0) w"

section \<open>RandomHeightFieldTerrain\<close>

record hf_scene =
  hf_num_rows :: int
  hf_num_columns :: int
  hf_height_range :: rat
  hf_random_seed :: "int option"
  hf_color_sequence :: "rat list list"
  hf_rebuild_scene_during_reset :: bool
  hf_pybullet_client :: "client option attr"
  hf_floor_id :: "handle attr"

text \<open>\<^verbatim>\<open>__init__\<close> stores its six arguments; it assigns no other attribute.\<close>

definition RandomHeightFieldTerrain_init ::
  "int \<Rightarrow> int \<Rightarrow> rat \<Rightarrow> int option \<Rightarrow> rat list list \<Rightarrow> bool \<Rightarrow> hf_scene" where
  "RandomHeightFieldTerrain_init num_rows num_columns height_range random_seed
       color_sequence rebuild_scene_during_reset =
     \<lparr>hf_num_rows = num_rows, hf_num_columns = num_columns, hf_height_range = height_range,
      hf_random_seed = random_seed, hf_color_sequence = color_sequence,
      hf_rebuild_scene_during_reset = rebuild_scene_during_reset,
      hf_pybullet_client = Unset, hf_floor_id = Unset\<rparr>"

definition hf_build_scene ::
  "prng_lib \<Rightarrow> hf_scene \<Rightarrow> client option \<Rightarrow> world \<Rightarrow> (error + unit) \<times> hf_scene \<times> world" where
  "hf_build_scene lib self pybullet_client w0 =
     (let self1 = self\<lparr>hf_pybullet_client := Attr pybullet_client\<rparr>;
          w1 = py_seed lib (hf_random_seed self1) w0
      in case engine_do pybullet_client (ConfigureDebugVisualizer COV_ENABLE_RENDERING 0) w1 of
           (Inl e, w2) \<Rightarrow> (Inl e, self1, w2)
         | (Inr _, w2) \<Rightarrow>
     (case block_noise (hf_num_rows self1) (hf_num_columns self1)
             (hf_height_range self1 * 5) w2 of
           (Inl e, w3) \<Rightarrow> (Inl e, self1, w3)
         | (Inr heightfieldData, w3) \<Rightarrow>
     (case engine_new_shape pybullet_client
             (CreateCollisionShapeHeightfield (1 / 50, 1 / 50, 1)
                ((of_int (hf_num_rows self1) - 1) / 2) heightfieldData
                (hf_num_rows self1) (hf_num_columns self1)) w3 of
           (Inl e, w4) \<Rightarrow> (Inl e, self1, w4)
         | (Inr terrain_shape, w4) \<Rightarrow>
     (case engine_new_body pybullet_client (CreateMultiBody 0 terrain_shape) w4 of
           (Inl e, w5) \<Rightarrow> (Inl e, self1, w5)
         | (Inr terrain_id, w5) \<Rightarrow>
     (case engine_do pybullet_client
             (ResetBasePositionAndOrientation terrain_id (0, 0, 0) (0, 0, 0, 1)) w5 of
           (Inl e, w6) \<Rightarrow> (Inl e, self1, w6)
         | (Inr _, w6) \<Rightarrow> (Inr (), self1\<lparr>hf_floor_id := Attr terrain_id\<rparr>, w6))))))"


text \<open>
  The owning environment: its engine handle, created with the environment, and the
  ground handle that \<^verbatim>\<open>set_ground\<close> stores.
\<close>

record gym_env =
  env_pybullet_client :: client
  ground :: "handle option"

definition set_ground :: "handle \<Rightarrow> gym_env \<Rightarrow> gym_env" where
  "set_ground h env = env\<lparr>ground := Some h\<rparr>"

definition hf_reset ::
  "prng_lib \<Rightarrow> hf_scene \<Rightarrow> gym_env \<Rightarrow> world \<Rightarrow> (error + unit) \<times> hf_scene \<times> gym_env \<times> world" where
  "hf_reset lib self env w0 =
     (case (if hf_rebuild_scene_during_reset self
            then (case get_attr (hf_pybullet_client self) of
                    Inl e \<Rightarrow> (Inl e, self, w0)
                  | Inr c \<Rightarrow> hf_build_scene lib self c w0)
            else (Inr (), self, w0)) of
        (Inl e, self1, w1) \<Rightarrow> (Inl e, self1, env, w1)
      | (Inr _, self1, w1) \<Rightarrow>
          (case get_attr (hf_floor_id self1) of
             Inl e \<Rightarrow> (Inl e, self1, env, w1)
           | Inr floor_id \<Rightarrow> (Inr (), self1, set_ground floor_id env, w1)))"

text \<open>
  \<^verbatim>\<open>
  @property
  def pybullet_client(self):
    if self._pybullet_client is None:
      raise ValueError("pybullet_client is None; did you call build_scene()?")
    return self._pybullet_client

  @property
  def ground_height(self):
    return 0.0
  \<close>
\<close>

definition hf_pybullet_client_property :: "hf_scene \<Rightarrow> error + client" where
  "hf_pybullet_client_property self =
     (case get_attr (hf_pybullet_client self) of
        Inl e \<Rightarrow> Inl e
      | Inr None \<Rightarrow> Inl ValueError
      | Inr (Some c) \<Rightarrow> Inr c)"

definition hf_ground_height :: "hf_scene \<Rightarrow> error + rat" where
  "hf_ground_height self = Inr 0"

section \<open>The stepstones module\<close>

text \<open>
  Modelled from the spec: the module \<^verbatim>\<open>motion_imitation.envs.scenes.stepstones\<close>
  (\<^verbatim>\<open>GRAY\<close>, \<^verbatim>\<open>load_box\<close>, \<^verbatim>\<open>build_one_stepstone\<close>, \<^verbatim>\<open>build_random_stepstones\<close>) is
  imported by the scenes and is not among the sources. The spec gives the platform a
  fixed gray colour without its components; a mid-gray stands for it.
\<close>

definition GRAY :: "rat list" where
  "GRAY = [1 / 2, 1 / 2, 1 / 2, 1]"

text \<open>
  Modelled from the spec: \<^verbatim>\<open>load_box\<close> is missing. A box becomes one static body with
  a box collision shape of the given half-extents, at the given position and
  orientation, with the given tint (the engine capabilities
  \<^verbatim>\<open>createBoxCollisionShape\<close>, \<^verbatim>\<open>createBody\<close>, \<^verbatim>\<open>setVisualTint\<close>); the body's handle
  is returned.
\<close>

definition load_box ::
  "client option \<Rightarrow> vec3 \<Rightarrow> vec3 \<Rightarrow> quaternion \<Rightarrow> rat list \<Rightarrow> rat \<Rightarrow> world
     \<Rightarrow> (error + handle) \<times> world" where
  "load_box pybullet_client half_extents position orientation rgba_color mass w0 =
     (case engine_new_shape pybullet_client (CreateBoxCollisionShape half_extents) w0 of
        (Inl e, w1) \<Rightarrow> (Inl e, w1)
      | (Inr shape, w1) \<Rightarrow>
     (case engine_new_body pybullet_client (CreateBody mass shape position orientation) w1 of
        (Inl e, w2) \<Rightarrow> (Inl e, w2)
      | (Inr body, w2) \<Rightarrow>
     (case engine_do pybullet_client (SetVisualTint body rgba_color) w2 of
        (Inl e, w3) \<Rightarrow> (Inl e, w3)
      | (Inr _, w3) \<Rightarrow> (Inr body, w3))))"

text \<open>
  Modelled from the spec: \<^verbatim>\<open>build_one_stepstone\<close> is missing. A stone's position is the
  end of the stone before it moved on by its gap and raised by its height offset; the
  stone is one static box with the extents of its length, width and height, axis
  aligned; it ends one stone length further along the traversal axis. The end position
  and the body handle are returned.
\<close>

definition build_one_stepstone ::
  "client option \<Rightarrow> vec3 \<Rightarrow> rat \<Rightarrow> rat \<Rightarrow> rat \<Rightarrow> rat \<Rightarrow> rat \<Rightarrow> rat list \<Rightarrow> world
     \<Rightarrow> (error + vec3 \<times> handle) \<times> world" where
  "build_one_stepstone pybullet_client start_pos stone_length stone_height stone_width
       gap_length height_offset rgba_color w0 =
     (case start_pos of (x, y, z) \<Rightarrow>
      (case load_box pybullet_client
              (stone_length / 2, stone_width / 2, stone_height / 2)
              (x + gap_length, y, z + height_offset) (0, 0, 0, 1) rgba_color 0 w0 of
         (Inl e, w1) \<Rightarrow> (Inl e, w1)
       | (Inr stone_id, w1) \<Rightarrow>
           (Inr ((x + gap_length + stone_length, y, z + height_offset), stone_id), w1)))"

text \<open>
  Modelled from the spec: \<^verbatim>\<open>build_random_stepstones\<close> is missing; its six sampling
  bounds are bundled here. Length, gap and height offset are each drawn "uniformly from
  their configured \<open>[lower, upper)\<close> ranges".
\<close>

record stone_bounds =
  length_lower :: rat
  length_upper :: rat
  gap_lower :: rat
  gap_upper :: rat
  offset_lower :: rat
  offset_upper :: rat

text \<open>
  Modelled from the spec: the colour of stone \<open>i\<close> is
  \<^verbatim>\<open>color_sequence[i % len(color_sequence)]\<close>, "deterministic cyclic assignment"; with an
  empty palette the remainder by zero raises.
\<close>

definition cycle_color :: "rat list list \<Rightarrow> nat \<Rightarrow> error + rat list" where
  "cycle_color color_sequence i =
     (if color_sequence = [] then Inl ZeroDivisionError
      else Inr (color_sequence ! (i mod length color_sequence)))"

text \<open>
  Modelled from the spec: the loop of \<^verbatim>\<open>build_random_stepstones\<close>. For each stone in
  increasing index the length, the gap and the height offset are drawn in that order
  from the shared stream, the colour is taken from the palette, and the stone is placed
  after the one before it; its handle is appended.
\<close>

primrec stones_loop ::
  "client option \<Rightarrow> rat \<Rightarrow> rat \<Rightarrow> stone_bounds \<Rightarrow> rat list list \<Rightarrow> nat list \<Rightarrow> vec3 \<Rightarrow> handle list
     \<Rightarrow> world \<Rightarrow> (error + vec3 \<times> handle list) \<times> world" where
  "stones_loop pybullet_client stone_height stone_width b color_sequence [] end_pos ids w =
     (Inr (end_pos, ids), w)"
| "stones_loop pybullet_client stone_height stone_width b color_sequence (i # is) end_pos ids w =
     (case np_uniform (length_lower b) (length_upper b) w of (stone_length, w1) \<Rightarrow>
     (case np_uniform (gap_lower b) (gap_upper b) w1 of (gap_length, w2) \<Rightarrow>
     (case np_uniform (offset_lower b) (offset_upper b) w2 of (height_offset, w3) \<Rightarrow>
     (case cycle_color color_sequence i of
        Inl e \<Rightarrow> (Inl e, w3)
      | Inr rgba_color \<Rightarrow>
     (case build_one_stepstone pybullet_client end_pos stone_length stone_height stone_width
             gap_length height_offset rgba_color w3 of
        (Inl e, w4) \<Rightarrow> (Inl e, w4)
      | (Inr (end_pos', stone_id), w4) \<Rightarrow>
          stones_loop pybullet_client stone_height stone_width b color_sequence is end_pos'
            (ids @ [stone_id]) w4)))))"

text \<open>
  Modelled from the spec: \<^verbatim>\<open>build_random_stepstones\<close> is missing. The spec has "a single
  shared random-number stream reseeded imperatively": the shared stream of numpy is
  reseeded with the seed, then the loop runs over \<^verbatim>\<open>range(num_stones)\<close> from the start
  position. The last end position and the handles in placement order are returned.
\<close>

definition build_random_stepstones ::
  "prng_lib \<Rightarrow> client option \<Rightarrow> vec3 \<Rightarrow> int \<Rightarrow> rat \<Rightarrow> rat \<Rightarrow> stone_bounds \<Rightarrow> int option
     \<Rightarrow> rat list list \<Rightarrow> world \<Rightarrow> (error + vec3 \<times> handle list) \<times> world" where
  "build_random_stepstones lib pybullet_client start_pos num_stones stone_height stone_width b
       random_seed color_sequence w =
     stones_loop pybullet_client stone_height stone_width b color_sequence
       [0..<nat num_stones] start_pos [] (np_seed lib random_seed w)"


section \<open>RandomStepstoneScene\<close>

text \<open>The seventeen keyword arguments of the constructor.\<close>

record ss_args =
  arg_num_stones :: int
  arg_stone_height :: rat
  arg_stone_width_lower_bound :: rat
  arg_stone_width_upper_bound :: rat
  arg_stone_length_lower_bound :: rat
  arg_stone_length_upper_bound :: rat
  arg_gap_length_lower_bound :: rat
  arg_gap_length_upper_bound :: rat
  arg_height_offset_lower_bound :: rat
  arg_height_offset_upper_bound :: rat
  arg_floor_height_lower_bound :: rat
  arg_floor_height_upper_bound :: rat
  arg_platform_length_lower_bound :: rat
  arg_platform_length_upper_bound :: rat
  arg_random_seed :: "int option"
  arg_color_sequence :: "rat list list"
  arg_rebuild_scene_during_reset :: bool

text \<open>
  The private attributes \<^verbatim>\<open>self._x\<close> are the fields \<open>ss_x\<close>. The last four are assigned
  by \<^verbatim>\<open>build_scene\<close> only: the constructor's call of the base class is commented out, and
  the constructor itself assigns none of them.
\<close>

record ss_scene =
  ss_num_stones :: int
  ss_stone_height :: rat
  ss_stone_width_lower_bound :: rat
  ss_stone_width_upper_bound :: rat
  ss_stone_length_lower_bound :: rat
  ss_stone_length_upper_bound :: rat
  ss_gap_length_lower_bound :: rat
  ss_gap_length_upper_bound :: rat
  ss_height_offset_lower_bound :: rat
  ss_height_offset_upper_bound :: rat
  ss_floor_height_lower_bound :: rat
  ss_floor_height_upper_bound :: rat
  ss_platform_length_lower_bound :: rat
  ss_platform_length_upper_bound :: rat
  ss_random_seed :: "int option"
  ss_color_sequence :: "rat list list"
  ss_rebuild_scene_during_reset :: bool
  ss_pybullet_client :: "client option attr"
  ss_step_stones_ids :: "handle list attr"
  ss_floor_height :: "rat attr"
  ss_floor_id :: "handle attr"

text \<open>
  \<^verbatim>\<open>
  for color in color_sequence:
    if len(color) != 4:
      raise ValueError(...)
  \<close>
\<close>

primrec check_colors :: "rat list list \<Rightarrow> error + unit" where
  "check_colors [] = Inr ()"
| "check_colors (color # rest) = (if length color \<noteq> 4 then Inl ValueError else check_colors rest)"

text \<open>The object as the constructor leaves it: the arguments stored, nothing else assigned.\<close>

definition new_scene :: "ss_args \<Rightarrow> ss_scene" where
  "new_scene args =
          \<lparr>ss_num_stones = arg_num_stones args,
           ss_stone_height = arg_stone_height args,
           ss_stone_width_lower_bound = arg_stone_width_lower_bound args,
           ss_stone_width_upper_bound = arg_stone_width_upper_bound args,
           ss_stone_length_lower_bound = arg_stone_length_lower_bound args,
           ss_stone_length_upper_bound = arg_stone_length_upper_bound args,
           ss_gap_length_lower_bound = arg_gap_length_lower_bound args,
           ss_gap_length_upper_bound = arg_gap_length_upper_bound args,
           ss_height_offset_lower_bound = arg_height_offset_lower_bound args,
           ss_height_offset_upper_bound = arg_height_offset_upper_bound args,
           ss_floor_height_lower_bound = arg_floor_height_lower_bound args,
           ss_floor_height_upper_bound = arg_floor_height_upper_bound args,
           ss_platform_length_lower_bound = arg_platform_length_lower_bound args,
           ss_platform_length_upper_bound = arg_platform_length_upper_bound args,
           ss_random_seed = arg_random_seed args,
           ss_color_sequence = arg_color_sequence args,
           ss_rebuild_scene_during_reset = arg_rebuild_scene_during_reset args,
           ss_pybullet_client = Unset, ss_step_stones_ids = Unset, ss_floor_height = Unset,
           ss_floor_id = Unset\<rparr>"

text \<open>The constructor reads no stream and calls no engine: it returns the world it was given.\<close>

definition RandomStepstoneScene_init :: "ss_args \<Rightarrow> world \<Rightarrow> (error + ss_scene) \<times> world" where
  "RandomStepstoneScene_init args w =
     (case check_colors (arg_color_sequence args) of
        Inl e \<Rightarrow> (Inl e, w)
      | Inr _ \<Rightarrow> (Inr (new_scene args), w))"

definition ss_stone_bounds :: "ss_scene \<Rightarrow> stone_bounds" where
  "ss_stone_bounds self =
     \<lparr>length_lower = ss_stone_length_lower_bound self,
      length_upper = ss_stone_length_upper_bound self,
      gap_lower = ss_gap_length_lower_bound self,
      gap_upper = ss_gap_length_upper_bound self,
      offset_lower = ss_height_offset_lower_bound self,
      offset_upper = ss_height_offset_upper_bound self\<rparr>"

text \<open>
  \<^verbatim>\<open>build_scene\<close>: the stone width and the platform length are drawn from numpy's shared
  stream, the platform stone and the random stones are built by the stepstones module,
  \<^verbatim>\<open>step_stones_ids = [first_stone_id + sid for sid in stepstone_ids]\<close> is stored, the
  floor height is drawn and the floor box is loaded.
\<close>

definition ss_build_scene ::
  "prng_lib \<Rightarrow> ss_scene \<Rightarrow> client option \<Rightarrow> world \<Rightarrow> (error + unit) \<times> ss_scene \<times> world" where
  "ss_build_scene lib self pybullet_client w0 =
     (let self1 = self\<lparr>ss_pybullet_client := Attr pybullet_client\<rparr>
      in case np_uniform (ss_stone_width_lower_bound self1) (ss_stone_width_upper_bound self1) w0 of
           (stone_width, w1) \<Rightarrow>
     (case np_uniform (ss_platform_length_lower_bound self1)
             (ss_platform_length_upper_bound self1) w1 of
           (platform_length, w2) \<Rightarrow>
     (case build_one_stepstone pybullet_client (- platform_length / 2, 0, 0) platform_length
             (ss_stone_height self1) stone_width 0 0 GRAY w2 of
           (Inl e, w3) \<Rightarrow> (Inl e, self1, w3)
         | (Inr (end_pos, first_stone_id), w3) \<Rightarrow>
     (case build_random_stepstones lib pybullet_client end_pos (ss_num_stones self1)
             (ss_stone_height self1) stone_width (ss_stone_bounds self1)
             (ss_random_seed self1) (ss_color_sequence self1) w3 of
           (Inl e, w4) \<Rightarrow> (Inl e, self1, w4)
         | (Inr (_, stepstone_ids), w4) \<Rightarrow>
     (let self2 = self1\<lparr>ss_step_stones_ids :=
                         Attr (map (\<lambda>sid. first_stone_id + sid) stepstone_ids)\<rparr>
      in case np_uniform (ss_floor_height_lower_bound self2)
                (ss_floor_height_upper_bound self2) w4 of
           (floor_height, w5) \<Rightarrow>
     (let self3 = self2\<lparr>ss_floor_height := Attr floor_height\<rparr>
      in case load_box pybullet_client (100, 100, 1) (0, 0, floor_height - 1) (0, 0, 0, 1)
                [1, 1, 1, 1] 0 w5 of
           (Inl e, w6) \<Rightarrow> (Inl e, self3, w6)
         | (Inr floor_id, w6) \<Rightarrow> (Inr (), self3\<lparr>ss_floor_id := Attr floor_id\<rparr>, w6)))))))"

definition ss_reset ::
  "prng_lib \<Rightarrow> ss_scene \<Rightarrow> gym_env \<Rightarrow> world \<Rightarrow> (error + unit) \<times> ss_scene \<times> gym_env \<times> world" where
  "ss_reset lib self env w0 =
     (case (if ss_rebuild_scene_during_reset self
            then (case get_attr (ss_pybullet_client self) of
                    Inl e \<Rightarrow> (Inl e, self, w0)
                  | Inr c \<Rightarrow> ss_build_scene lib self c w0)
            else (Inr (), self, w0)) of
        (Inl e, self1, w1) \<Rightarrow> (Inl e, self1, env, w1)
      | (Inr _, self1, w1) \<Rightarrow>
          (case get_attr (ss_floor_id self1) of
             Inl e \<Rightarrow> (Inl e, self1, env, w1)
           | Inr floor_id \<Rightarrow> (Inr (), self1, set_ground floor_id env, w1)))"

definition ss_pybullet_client_property :: "ss_scene \<Rightarrow> error + client" where
  "ss_pybullet_client_property self =
     (case get_attr (ss_pybullet_client self) of
        Inl e \<Rightarrow> Inl e
      | Inr None \<Rightarrow> Inl ValueError
      | Inr (Some c) \<Rightarrow> Inr c)"

definition ss_ground_height :: "ss_scene \<Rightarrow> error + rat" where
  "ss_ground_height self = Inr 0"

section \<open>Terrain (plane\_terrain.py)\<close>

record terrain =
  terrain_source :: string
  terrain_id :: string
  columns :: int
  rows :: int
  terrain_shape :: "handle attr"

text \<open>\<^verbatim>\<open>__init__\<close> begins with \<^verbatim>\<open>random.seed(10)\<close> and stores its four arguments.\<close>

definition Terrain_init ::
  "prng_lib \<Rightarrow> string \<Rightarrow> string \<Rightarrow> int \<Rightarrow> int \<Rightarrow> world \<Rightarrow> terrain \<times> world" where
  "Terrain_init lib terrain_source' terrain_id' columns' rows' w =
     (\<lparr>terrain_source = terrain_source', terrain_id = terrain_id', columns = columns',
       rows = rows', terrain_shape = Unset\<rparr>,
      py_seed lib (Some 10) w)"

text \<open>
  The names bound at module level: the imports \<^verbatim>\<open>pybullet as p\<close> and \<^verbatim>\<open>random\<close>, the two
  tables and the class. A name is looked up there and then among the builtins, of which
  the module uses \<^verbatim>\<open>int\<close> and \<^verbatim>\<open>range\<close>; a name found in neither raises NameError.
\<close>

definition module_globals :: "string list" where
  "module_globals = [''p'', ''random'', ''FLAG_TO_FILENAME'', ''ROBOT_INIT_POSITION'', ''Terrain'']"

definition builtins_used :: "string list" where
  "builtins_used = [''int'', ''range'']"

definition lookup_name :: "string \<Rightarrow> error + unit" where
  "lookup_name n =
     (if n \<in> set module_globals \<or> n \<in> set builtins_used then Inr () else Inl (NameError n))"

text \<open>
  The statements of \<^verbatim>\<open>generate_terrain\<close> after its first one: rendering is switched off,
  and for the source \<^verbatim>\<open>'random'\<close> the grid is filled, submitted and tinted. For any other
  source \<^verbatim>\<open>terrain_shape\<close> is read without having been assigned.
\<close>

definition generate_terrain_rest ::
  "terrain \<Rightarrow> gym_env \<Rightarrow> rat \<Rightarrow> world \<Rightarrow> (error + unit) \<times> terrain \<times> world" where
  "generate_terrain_rest self env height_perturbation_range w0 =
     (let c = Some (env_pybullet_client env)
      in case engine_do c (ConfigureDebugVisualizer COV_ENABLE_RENDERING 0) w0 of
           (Inl e, w1) \<Rightarrow> (Inl e, self, w1)
         | (Inr _, w1) \<Rightarrow>
     (if terrain_source self = ''random'' then
     (case block_noise (rows self) (columns self) height_perturbation_range w1 of
           (Inl e, w2) \<Rightarrow> (Inl e, self, w2)
         | (Inr terrain_data, w2) \<Rightarrow>
     (case engine_new_shape c
             (CreateCollisionShapeHeightfield (1 / 20, 1 / 20, 1)
                ((of_int (rows self) - 1) / 2) terrain_data (rows self) (columns self)) w2 of
           (Inl e, w3) \<Rightarrow> (Inl e, self, w3)
         | (Inr terrain_shape', w3) \<Rightarrow>
     (case engine_new_body c (CreateMultiBody 0 terrain_shape') w3 of
           (Inl e, w4) \<Rightarrow> (Inl e, self, w4)
         | (Inr terrain', w4) \<Rightarrow>
     (case engine_do c (ResetBasePositionAndOrientation terrain' (0, 0, 0) (0, 0, 0, 1)) w4 of
           (Inl e, w5) \<Rightarrow> (Inl e, self, w5)
         | (Inr _, w5) \<Rightarrow>
     (let self1 = self\<lparr>terrain_shape := Attr terrain_shape'\<rparr>
      in case engine_do c (ChangeVisualShape terrain' (- 1) [1, 1, 1, 1]) w5 of
           (Inl e, w6) \<Rightarrow> (Inl e, self1, w6)
         | (Inr _, w6) \<Rightarrow> (Inr (), self1, w6))))))
      else (Inl (UnboundLocalError ''terrain_shape''), self, w1)))"

text \<open>
  The object passed as \<^verbatim>\<open>env\<close>: Python does not type the argument. It may be \<^verbatim>\<open>None\<close>,
  an object without the attribute \<^verbatim>\<open>pybullet_client\<close>, an object whose client is
  \<^verbatim>\<open>None\<close>, or an environment with its client.
\<close>

datatype env_arg = PyNone | NoClientAttribute | NoneClient | GymEnv gym_env

text \<open>
  \<^verbatim>\<open>env.pybullet_client.setAdditionalSearchPath\<close>: the attribute chain that finds the
  method. Only an environment with a client has it; on every other object one of the
  two lookups raises AttributeError.
\<close>

definition client_method :: "env_arg \<Rightarrow> error + gym_env" where
  "client_method env =
     (case env of
        PyNone \<Rightarrow> Inl AttributeError
      | NoClientAttribute \<Rightarrow> Inl AttributeError
      | NoneClient \<Rightarrow> Inl AttributeError
      | GymEnv e \<Rightarrow> Inr e)"

text \<open>
  \<^verbatim>\<open>env.pybullet_client.setAdditionalSearchPath(pd.getDataPath())\<close>: a call evaluates what
  is called before its arguments, so the attribute chain on \<^verbatim>\<open>env\<close> comes first, then the
  argument, which looks the name \<^verbatim>\<open>pd\<close> up. Only when both succeed is the call made
  (the path that \<^verbatim>\<open>pd\<close> would give stands as \<open>''pybullet_data''\<close>) and the remaining
  statements reached.
\<close>

definition generate_terrain ::
  "terrain \<Rightarrow> env_arg \<Rightarrow> rat \<Rightarrow> world \<Rightarrow> (error + unit) \<times> terrain \<times> world" where
  "generate_terrain self env height_perturbation_range w0 =
     (case client_method env of
        Inl e \<Rightarrow> (Inl e, self, w0)
      | Inr genv \<Rightarrow>
     (case lookup_name ''pd'' of
        Inl e \<Rightarrow> (Inl e, self, w0)
      | Inr _ \<Rightarrow>
          (case engine_do (Some (env_pybullet_client genv))
                  (SetAdditionalSearchPath ''pybullet_data'') w0 of
             (Inl e, w1) \<Rightarrow> (Inl e, self, w1)
           | (Inr _, w1) \<Rightarrow> generate_terrain_rest self genv height_perturbation_range w1)))"

section \<open>Observations and sample inputs\<close>

text \<open>The four row-major cells of the half-resolution block \<open>(i, j)\<close>.\<close>

definition block_cells :: "nat \<Rightarrow> nat \<Rightarrow> nat \<Rightarrow> nat list" where
  "block_cells R i j =
     [2 * i + 2 * j * R, 2 * i + 1 + 2 * j * R,
      2 * i + (2 * j + 1) * R, 2 * i + 1 + (2 * j + 1) * R]"

definition blocks_equal :: "nat \<Rightarrow> nat \<Rightarrow> rat list \<Rightarrow> bool" where
  "blocks_equal R C d \<longleftrightarrow>
     length d = R * C \<and>
     (\<forall>i j. 2 * i + 1 < R \<and> 2 * j + 1 < C \<longrightarrow>
        (\<forall>k \<in> set (block_cells R i j). d ! k = d ! (2 * i + 2 * j * R)))"

text \<open>
  The block invariant of a grid of \<open>R\<close> rows and \<open>C\<close> columns: the grid has \<open>R * C\<close>
  cells and, in every block that lies inside it, the other three cells hold the value
  of the first.
\<close>

definition blocks_constant :: "nat \<Rightarrow> nat \<Rightarrow> rat list \<Rightarrow> bool" where
  "blocks_constant R C d \<longleftrightarrow>
     length d = R * C \<and>
     (\<forall>i j. 2 * i + 1 < R \<and> 2 * j + 1 < C \<longrightarrow>
        d ! (2 * i + 1 + 2 * j * R) = d ! (2 * i + 2 * j * R) \<and>
        d ! (2 * i + (2 * j + 1) * R) = d ! (2 * i + 2 * j * R) \<and>
        d ! (2 * i + 1 + (2 * j + 1) * R) = d ! (2 * i + 2 * j * R))"

text \<open>The height sequences submitted to the engine so far, oldest first.\<close>

fun heightfield_of :: "call \<Rightarrow> rat list option" where
  "heightfield_of (CreateCollisionShapeHeightfield scale texture d r c) = Some d"
| "heightfield_of _ = None"

definition submitted_heightfields :: "world \<Rightarrow> rat list list" where
  "submitted_heightfields w = List.map_filter heightfield_of (calls (sim w))"

text \<open>
  Sample inputs. A seeding that starts the stream at the seed's eighth and moves on by
  an eighth per draw stands for the libraries' own; a world whose streams repeat one
  number, with an engine that has created \<open>b\<close> bodies already; the constructor's default
  arguments, with the number of stones, the seed, the palette and the rebuild flag
  left open.
\<close>

definition demo_lib :: prng_lib where
  "demo_lib =
     \<lparr>py_init = (\<lambda>k. siterate (\<lambda>n. n + 2 ^ 50) (nat \<bar>k\<bar> * 2 ^ 50)),
      np_init = (\<lambda>k. siterate (\<lambda>n. n + 2 ^ 50) (nat \<bar>k\<bar> * 2 ^ 50))\<rparr>"

definition demo_world :: "nat \<Rightarrow> int \<Rightarrow> world" where
  "demo_world n b =
     \<lparr>py_random = sconst n, np_random = sconst n, os_entropy = sconst (sconst 0),
      sim = \<lparr>calls = [], next_shape = b, next_body = b\<rparr>\<rparr>"

definition default_args :: "int \<Rightarrow> int option \<Rightarrow> rat list list \<Rightarrow> bool \<Rightarrow> ss_args" where
  "default_args n seed palette rebuild =
     \<lparr>arg_num_stones = n, arg_stone_height = 1 / 20,
      arg_stone_width_lower_bound = 2, arg_stone_width_upper_bound = 3,
      arg_stone_length_lower_bound = 1 / 10, arg_stone_length_upper_bound = 3 / 10,
      arg_gap_length_lower_bound = 1 / 10, arg_gap_length_upper_bound = 3 / 10,
      arg_height_offset_lower_bound = 0, arg_height_offset_upper_bound = 1 / 1000000,
      arg_floor_height_lower_bound = - (1 / 2), arg_floor_height_upper_bound = - (11 / 20),
      arg_platform_length_lower_bound = 3 / 4, arg_platform_length_upper_bound = 1,
      arg_random_seed = seed, arg_color_sequence = palette,
      arg_rebuild_scene_during_reset = rebuild\<rparr>"

definition default_scene :: "int \<Rightarrow> int option \<Rightarrow> rat list list \<Rightarrow> bool \<Rightarrow> ss_scene" where
  "default_scene n seed palette rebuild = new_scene (default_args n seed palette rebuild)"

definition demo_hf_scene :: "rat \<Rightarrow> bool \<Rightarrow> hf_scene" where
  "demo_hf_scene height_range rebuild =
     RandomHeightFieldTerrain_init 2 2 height_range (Some 1) [] rebuild"

definition demo_env :: gym_env where
  "demo_env = \<lparr>env_pybullet_client = 0, ground = None\<rparr>"

text \<open>
  What the proofs about the loops carry along: every value of a grid lies in
  \<open>[0, hi)\<close>; and a stretch of the loop keeps the block invariant, the engine, numpy's
  stream and the system's entropy, and keeps the values in range.
\<close>

definition in_range :: "rat \<Rightarrow> rat list \<Rightarrow> bool" where
  "in_range hi d \<longleftrightarrow> (\<forall>h \<in> set d. 0 \<le> h \<and> h < hi)"

definition loop_keeps :: "nat \<Rightarrow> nat \<Rightarrow> rat \<Rightarrow> rat list \<Rightarrow> world \<Rightarrow> rat list \<Rightarrow> world \<Rightarrow> bool" where
  "loop_keeps R C hi d w d' w' \<longleftrightarrow>
     blocks_equal R C d' \<and> sim w' = sim w \<and> np_random w' = np_random w \<and>
     os_entropy w' = os_entropy w \<and> (0 < hi \<and> in_range hi d \<longrightarrow> in_range hi d')"

text \<open>
  The three calls that load one box, the world after they have been made, and the
  three draws of one random stone (length, gap, height offset) with the stream left
  after them.
\<close>

definition box_calls :: "vec3 \<Rightarrow> vec3 \<Rightarrow> quaternion \<Rightarrow> rat list \<Rightarrow> rat \<Rightarrow> handle \<Rightarrow> handle \<Rightarrow> call list" where
  "box_calls half_extents position orientation rgba_color mass shape body =
     [CreateBoxCollisionShape half_extents, CreateBody mass shape position orientation,
      SetVisualTint body rgba_color]"

definition add_box :: "vec3 \<Rightarrow> vec3 \<Rightarrow> quaternion \<Rightarrow> rat list \<Rightarrow> rat \<Rightarrow> world \<Rightarrow> world" where
  "add_box half_extents position orientation rgba_color mass w =
     w\<lparr>sim := \<lparr>calls = calls (sim w) @
                   box_calls half_extents position orientation rgba_color mass
                     (next_shape (sim w)) (next_body (sim w)),
                 next_shape = next_shape (sim w) + 1,
                 next_body = next_body (sim w) + 1\<rparr>\<rparr>"


text \<open>The handles of the bodies whose tint was set, in the order of the calls.\<close>

fun tinted_body :: "call \<Rightarrow> handle option" where
  "tinted_body (SetVisualTint b c) = Some b"
| "tinted_body _ = None"



text \<open>A terrain object as its constructor leaves it, of the source \<^verbatim>\<open>'random'\<close>.\<close>

definition demo_terrain :: terrain where
  "demo_terrain = fst (Terrain_init demo_lib ''random'' ''random'' 256 256 (demo_world 0 0))"


section \<open>The heightfield loop\<close>

subsection \<open>Index arithmetic of the blocks\<close>

lemma block_index_less:
  assumes "2 * i + 1 < R" "2 * j + 1 < C"
  shows "2 * i + 1 + (2 * j + 1) * R < R * (C::nat)"
proof -
  have "(2 * j + 2) * R \<le> C * R" using assms(2) by (intro mult_le_mono1) simp
  moreover have "2 * i + 1 + (2 * j + 1) * R < (2 * j + 2) * R" using assms(1) by (simp add: algebra_simps)
  ultimately show ?thesis by (simp add: mult.commute)
qed

lemma cell_index_unique:
  assumes "a < R" "a' < R" "a + b * R = a' + b' * (R::nat)"
  shows "a = a' \<and> b = b'"
proof -
  have "a = (a + b * R) mod R" using assms(1) by simp
  also have "\<dots> = (a' + b' * R) mod R" by (simp only: assms(3))
  also have "\<dots> = a'" using assms(2) by simp
  finally have a: "a = a'" .
  have "b = (a + b * R) div R" using assms(1) by simp
  also have "\<dots> = (a' + b' * R) div R" by (simp only: assms(3))
  also have "\<dots> = b'" using assms(2) by simp
  finally have "b = b'" .
  with a show ?thesis by simp
qed

lemma block_cells_less:
  assumes "2 * i + 1 < R" "2 * j + 1 < C" "k \<in> set (block_cells R i j)"
  shows "k < R * C"
  using block_index_less[OF assms(1,2)] assms(3) by (auto simp: block_cells_def)

lemma block_cells_disjoint:
  assumes "2 * i + 1 < R" "2 * i' + 1 < R" "k \<in> set (block_cells R i j)" "k \<in> set (block_cells R i' j')"
  shows "i = i' \<and> j = j'"
proof -
  from assms(3) obtain a b where k: "k = 2 * i + a + (2 * j + b) * R" "a < 2" "b < 2"
    by (auto simp: block_cells_def intro: that[of 0 0] that[of 1 0] that[of 0 1] that[of 1 1])
  from assms(4) obtain a' b' where k': "k = 2 * i' + a' + (2 * j' + b') * R" "a' < 2" "b' < 2"
    by (auto simp: block_cells_def intro: that[of 0 0] that[of 1 0] that[of 0 1] that[of 1 1])
  have "2 * i + a < R" "2 * i' + a' < R" using assms(1,2) k k' by auto
  moreover have "2 * i + a + (2 * j + b) * R = 2 * i' + a' + (2 * j' + b') * R"
    using k(1) k'(1) by simp
  ultimately have "2 * i + a = 2 * i' + a' \<and> 2 * j + b = 2 * j' + b'"
    by (rule cell_index_unique)
  then show ?thesis using k k' by presburger
qed

lemma half_range_odd_less: "i < nat (n div 2) \<Longrightarrow> 2 * i + 1 < nat n"
  by linarith

subsection \<open>One block written\<close>

lemma write_block_nth:
  assumes "2 * i + 1 < R" "2 * j + 1 < C" "length d = R * C"
  shows "\<exists>d'. write_block R i j h d = Inr d' \<and> length d' = R * C \<and>
           (\<forall>k < R * C. d' ! k = (if k \<in> set (block_cells R i j) then h else d ! k))"
  using block_index_less[OF assms(1,2)] assms(3)
  by (auto simp: write_block_def set_item_def block_cells_def nth_list_update)

lemma write_block_set:
  assumes "write_block R i j h d = Inr d'"
  shows "set d' \<subseteq> insert h (set d)"
proof -
  from assms obtain a b c e where d': "d' = d[a := h, b := h, c := h, e := h]"
    by (auto simp: write_block_def set_item_def split: sum.splits if_splits)
  have 1: "set (d[a := h]) \<subseteq> insert h (set d)"
    by (rule set_update_subset_insert)
  have 2: "set (d[a := h, b := h]) \<subseteq> insert h (set (d[a := h]))"
    by (rule set_update_subset_insert)
  have 3: "set (d[a := h, b := h, c := h]) \<subseteq> insert h (set (d[a := h, b := h]))"
    by (rule set_update_subset_insert)
  have 4: "set (d[a := h, b := h, c := h, e := h]) \<subseteq> insert h (set (d[a := h, b := h, c := h]))"
    by (rule set_update_subset_insert)
  from 1 2 3 4 show ?thesis unfolding d' by blast
qed

lemma write_block_blocks_equal:
  assumes "2 * i + 1 < R" "2 * j + 1 < C" "blocks_equal R C d"
  shows "\<exists>d'. write_block R i j h d = Inr d' \<and> blocks_equal R C d'"
proof -
  have len: "length d = R * C" using assms(3) by (simp add: blocks_equal_def)
  from write_block_nth[OF assms(1,2) len, of h] obtain d' where
    d': "write_block R i j h d = Inr d'" "length d' = R * C"
        "\<And>k. k < R * C \<Longrightarrow> d' ! k = (if k \<in> set (block_cells R i j) then h else d ! k)"
    by blast
  have "d' ! k = d' ! (2 * i' + 2 * j' * R)"
    if b: "2 * i' + 1 < R" "2 * j' + 1 < C" and k: "k \<in> set (block_cells R i' j')" for i' j' k
  proof -
    let ?k0 = "2 * i' + 2 * j' * R"
    have k0: "?k0 \<in> set (block_cells R i' j')" by (simp add: block_cells_def)
    have lt: "k < R * C" "?k0 < R * C" using block_cells_less[OF b] k k0 by blast+
    show ?thesis
    proof (cases "i' = i \<and> j' = j")
      case True
      then show ?thesis using d'(3)[OF lt(1)] d'(3)[OF lt(2)] k k0 by simp
    next
      case False
      then have "k \<notin> set (block_cells R i j)" "?k0 \<notin> set (block_cells R i j)"
        using block_cells_disjoint[OF assms(1) b(1) _ k] block_cells_disjoint[OF assms(1) b(1) _ k0]
        by blast+
      moreover have "d ! k = d ! ?k0" using assms(3) b k by (simp add: blocks_equal_def)
      ultimately show ?thesis using d'(3)[OF lt(1)] d'(3)[OF lt(2)] by simp
    qed
  qed
  then show ?thesis using d'(1,2) by (auto simp: blocks_equal_def)
qed

lemma blocks_equal_replicate: "blocks_equal R C (replicate (R * C) 0)"
  unfolding blocks_equal_def
proof (intro conjI allI impI ballI)
  fix i j k
  assume h: "2 * i + 1 < R \<and> 2 * j + 1 < C" and k: "k \<in> set (block_cells R i j)"
  have "k < R * C" using block_cells_less h k by blast
  moreover have "2 * i + 2 * j * R < R * C"
    using block_cells_less[of i R j C "2 * i + 2 * j * R"] h by (simp add: block_cells_def)
  ultimately show "replicate (R * C) (0::rat) ! k = replicate (R * C) 0 ! (2 * i + 2 * j * R)"
    by simp
qed simp

lemma blocks_equal_constant:
  assumes "blocks_equal R C d"
  shows "blocks_constant R C d"
  unfolding blocks_constant_def
proof (intro conjI allI impI)
  show "length d = R * C" using assms by (simp add: blocks_equal_def)
next
  fix i j
  assume "2 * i + 1 < R \<and> 2 * j + 1 < C"
  then have b: "\<forall>k \<in> set (block_cells R i j). d ! k = d ! (2 * i + 2 * j * R)"
    using assms unfolding blocks_equal_def by blast
  show "d ! (2 * i + 1 + 2 * j * R) = d ! (2 * i + 2 * j * R)"
    using b unfolding block_cells_def by simp
  show "d ! (2 * i + (2 * j + 1) * R) = d ! (2 * i + 2 * j * R)"
    using b unfolding block_cells_def by simp
  show "d ! (2 * i + 1 + (2 * j + 1) * R) = d ! (2 * i + 2 * j * R)"
    using b unfolding block_cells_def by simp
qed

subsection \<open>The draws\<close>

lemma random_sample_unit: "0 \<le> fst (random_sample g) \<and> fst (random_sample g) < 1"
proof -
  have "shd g mod 2 ^ 53 < 2 ^ 53" by simp
  then have "(of_nat (shd g mod 2 ^ 53) :: rat) < of_nat (2 ^ 53)" by (simp only: of_nat_less_iff)
  then show ?thesis by (simp add: random_sample_def)
qed

lemma uniform_from_zero:
  assumes "0 < b"
  shows "0 \<le> fst (uniform 0 b g) \<and> fst (uniform 0 b g) < b"
proof -
  obtain u g' where u: "random_sample g = (u, g')" by (cases "random_sample g")
  with random_sample_unit[of g] have "0 \<le> u" "u < 1" by simp_all
  then have "0 \<le> b * u" "b * u < b * 1" using assms by simp_all
  then show ?thesis by (simp add: uniform_def u)
qed

lemma py_uniform_world:
  "py_uniform a b w = (fst (uniform a b (py_random w)), w\<lparr>py_random := snd (uniform a b (py_random w))\<rparr>)"
  by (simp add: py_uniform_def split: prod.splits)

lemma np_uniform_world:
  "np_uniform a b w = (fst (uniform a b (np_random w)), w\<lparr>np_random := snd (uniform a b (np_random w))\<rparr>)"
  by (simp add: np_uniform_def split: prod.splits)

subsection \<open>The loops\<close>

lemma loop_keeps_refl: "blocks_equal R C d \<Longrightarrow> loop_keeps R C hi d w d w"
  by (simp add: loop_keeps_def)

lemma loop_keeps_trans:
  "loop_keeps R C hi d w d1 w1 \<Longrightarrow> loop_keeps R C hi d1 w1 d' w' \<Longrightarrow> loop_keeps R C hi d w d' w'"
  by (simp add: loop_keeps_def)

lemma write_block_keeps:
  assumes "2 * i + 1 < R" "2 * j + 1 < C" "blocks_equal R C d"
  shows "\<exists>d1. write_block R i j (fst (uniform 0 hi (py_random w))) d = Inr d1 \<and>
           loop_keeps R C hi d w d1 (w\<lparr>py_random := snd (uniform 0 hi (py_random w))\<rparr>)"
proof -
  let ?h = "fst (uniform 0 hi (py_random w))"
  from assms obtain d1 where
    d1: "write_block R i j ?h d = Inr d1" "blocks_equal R C d1"
    using write_block_blocks_equal[of i R j C d ?h] by blast
  have sub: "set d1 \<subseteq> insert ?h (set d)" using write_block_set[OF d1(1)] .
  have "in_range hi d1" if "0 < hi" "in_range hi d"
  proof -
    have "0 \<le> ?h \<and> ?h < hi" using uniform_from_zero[OF that(1)] by blast
    with that(2) sub show ?thesis unfolding in_range_def by blast
  qed
  then show ?thesis using d1 by (auto simp: loop_keeps_def)
qed

lemma rows_loop_keeps:
  assumes "\<forall>i \<in> set is. 2 * i + 1 < R" "2 * j + 1 < C" "blocks_equal R C d"
  shows "\<exists>d' w'. rows_loop R hi j is d w = (Inr d', w') \<and> loop_keeps R C hi d w d' w'"
  using assms
proof (induction "is" arbitrary: d w)
  case Nil
  then show ?case by (simp add: loop_keeps_refl)
next
  case (Cons i "is")
  let ?h = "fst (uniform 0 hi (py_random w))"
  let ?w1 = "w\<lparr>py_random := snd (uniform 0 hi (py_random w))\<rparr>"
  from Cons.prems obtain d1 where
    d1: "write_block R i j ?h d = Inr d1" "loop_keeps R C hi d w d1 ?w1"
    using write_block_keeps[of i R j C d hi w] by auto
  then have "blocks_equal R C d1" by (simp add: loop_keeps_def)
  with Cons.IH[of d1 ?w1] Cons.prems obtain d' w' where
    r: "rows_loop R hi j is d1 ?w1 = (Inr d', w')" "loop_keeps R C hi d1 ?w1 d' w'" by auto
  have "rows_loop R hi j (i # is) d w = (Inr d', w')"
    using r(1) d1(1) by (simp add: py_uniform_world)
  with loop_keeps_trans[OF d1(2) r(2)] show ?case by blast
qed

lemma columns_loop_keeps:
  assumes "\<forall>i \<in> set is. 2 * i + 1 < R" "\<forall>j \<in> set js. 2 * j + 1 < C" "blocks_equal R C d"
  shows "\<exists>d' w'. columns_loop R hi is js d w = (Inr d', w') \<and> loop_keeps R C hi d w d' w'"
  using assms
proof (induction js arbitrary: d w)
  case Nil
  then show ?case by (simp add: loop_keeps_refl)
next
  case (Cons j js)
  from Cons.prems obtain d1 w1 where
    r: "rows_loop R hi j is d w = (Inr d1, w1)" "loop_keeps R C hi d w d1 w1"
    using rows_loop_keeps[of "is" R j C d hi w] by auto
  then have "blocks_equal R C d1" by (simp add: loop_keeps_def)
  with Cons.IH[of d1 w1] Cons.prems obtain d' w' where
    c: "columns_loop R hi is js d1 w1 = (Inr d', w')" "loop_keeps R C hi d1 w1 d' w'" by auto
  have "columns_loop R hi is (j # js) d w = (Inr d', w')" using r(1) c(1) by simp
  with loop_keeps_trans[OF r(2) c(2)] show ?case by blast
qed

lemma block_noise_keeps:
  "\<exists>d w'. block_noise nr nc hi w = (Inr d, w') \<and>
      loop_keeps (nat nr) (nat nc) hi (replicate (nat nr * nat nc) 0) w d w'"
  unfolding block_noise_def
proof (rule columns_loop_keeps)
  show "\<forall>i \<in> set [0..<nat (nr div 2)]. 2 * i + 1 < nat nr"
    using half_range_odd_less by simp
  show "\<forall>j \<in> set [0..<nat (nc div 2)]. 2 * j + 1 < nat nc"
    using half_range_odd_less by simp
  show "blocks_equal (nat nr) (nat nc) (replicate (nat nr * nat nc) 0)"
    by (rule blocks_equal_replicate)
qed

lemma block_noise_total:
  "\<exists>d w'. block_noise nr nc hi w = (Inr d, w') \<and>
      blocks_constant (nat nr) (nat nc) d \<and> sim w' = sim w \<and>
      np_random w' = np_random w \<and> os_entropy w' = os_entropy w \<and>
      (0 < hi \<longrightarrow> in_range hi d)"
proof -
  from block_noise_keeps[of nr nc hi w] obtain d w' where
    b: "block_noise nr nc hi w = (Inr d, w')"
       "loop_keeps (nat nr) (nat nc) hi (replicate (nat nr * nat nc) 0) w d w'" by blast
  have "in_range hi (replicate (nat nr * nat nc) 0)" if "0 < hi"
    using that by (simp add: in_range_def)
  with b(2) have "0 < hi \<longrightarrow> in_range hi d" by (simp add: loop_keeps_def)
  moreover have "blocks_constant (nat nr) (nat nc) d"
    using b(2) by (simp add: loop_keeps_def blocks_equal_constant)
  ultimately show ?thesis using b by (simp add: loop_keeps_def)
qed

subsection \<open>The engine calls of a valid handle\<close>

lemma engine_do_Some: "engine_do (Some c) k w = (Inr (), log_call k w)"
  by (simp add: engine_do_def)

lemma engine_new_shape_Some:
  "engine_new_shape (Some c) k w =
     (Inr (next_shape (sim w)), log_call k (w\<lparr>sim := (sim w)\<lparr>next_shape := next_shape (sim w) + 1\<rparr>\<rparr>))"
  by (simp add: engine_new_shape_def)

lemma engine_new_body_Some:
  "engine_new_body (Some c) k w =
     (Inr (next_body (sim w)), log_call k (w\<lparr>sim := (sim w)\<lparr>next_body := next_body (sim w) + 1\<rparr>\<rparr>))"
  by (simp add: engine_new_body_def)

lemma sim_py_seed: "sim (py_seed lib a w) = sim w"
  by (simp add: py_seed_def split: option.splits)

lemma np_random_py_seed: "np_random (py_seed lib a w) = np_random w"
  by (simp add: py_seed_def split: option.splits)

lemma py_random_py_seed_Some: "py_random (py_seed lib (Some k) w) = py_init lib k"
  by (simp add: py_seed_def)

lemma submitted_heightfields_append:
  "calls (sim w') = calls (sim w) @ ks \<Longrightarrow>
     submitted_heightfields w' = submitted_heightfields w @ List.map_filter heightfield_of ks"
  by (simp add: submitted_heightfields_def map_filter_def)

subsection \<open>The grid depends on the stream of random alone\<close>

lemma rows_loop_py_random:
  assumes "py_random w1 = py_random w2"
  shows "fst (rows_loop R hi j is d w1) = fst (rows_loop R hi j is d w2) \<and>
         py_random (snd (rows_loop R hi j is d w1)) = py_random (snd (rows_loop R hi j is d w2))"
  using assms
proof (induction "is" arbitrary: d w1 w2)
  case Nil
  then show ?case by simp
next
  case (Cons i "is")
  let ?h = "fst (uniform 0 hi (py_random w2))"
  let ?g = "snd (uniform 0 hi (py_random w2))"
  show ?case
  proof (cases "write_block R i j ?h d")
    case (Inl e)
    then show ?thesis using Cons.prems by (simp add: py_uniform_world)
  next
    case (Inr d1)
    have "py_random (w1\<lparr>py_random := ?g\<rparr>) = py_random (w2\<lparr>py_random := ?g\<rparr>)" by simp
    from Cons.IH[OF this, of d1] Inr Cons.prems show ?thesis by (simp add: py_uniform_world)
  qed
qed

lemma columns_loop_py_random:
  assumes "py_random w1 = py_random w2"
  shows "fst (columns_loop R hi is js d w1) = fst (columns_loop R hi is js d w2) \<and>
         py_random (snd (columns_loop R hi is js d w1)) = py_random (snd (columns_loop R hi is js d w2))"
  using assms
proof (induction js arbitrary: d w1 w2)
  case Nil
  then show ?case by simp
next
  case (Cons j js)
  obtain r1 v1 where r1: "rows_loop R hi j is d w1 = (r1, v1)" by (cases "rows_loop R hi j is d w1")
  obtain r2 v2 where r2: "rows_loop R hi j is d w2 = (r2, v2)" by (cases "rows_loop R hi j is d w2")
  from rows_loop_py_random[OF Cons.prems, of R hi j "is" d] r1 r2
  have eq: "r1 = r2" "py_random v1 = py_random v2" by simp_all
  show ?case
  proof (cases r2)
    case (Inl e)
    then show ?thesis using r1 r2 eq by simp
  next
    case (Inr d1)
    from Cons.IH[OF eq(2), of d1] Inr r1 r2 eq show ?thesis by simp
  qed
qed

lemma block_noise_py_random:
  "py_random w1 = py_random w2 \<Longrightarrow> fst (block_noise nr nc hi w1) = fst (block_noise nr nc hi w2)"
  unfolding block_noise_def using columns_loop_py_random by blast

subsection \<open>A build of the heightfield scene through a valid handle\<close>

lemma hf_build_scene_Some:
  "\<exists>d w'. fst (block_noise (hf_num_rows self) (hf_num_columns self) (hf_height_range self * 5)
              (py_seed lib (hf_random_seed self) w0)) = Inr d \<and>
     hf_build_scene lib self (Some c) w0 =
       (Inr (), self\<lparr>hf_pybullet_client := Attr (Some c), hf_floor_id := Attr (next_body (sim w0))\<rparr>, w') \<and>
     calls (sim w') = calls (sim w0) @
       [ConfigureDebugVisualizer COV_ENABLE_RENDERING 0,
        CreateCollisionShapeHeightfield (1 / 50, 1 / 50, 1) ((of_int (hf_num_rows self) - 1) / 2) d
          (hf_num_rows self) (hf_num_columns self),
        CreateMultiBody 0 (next_shape (sim w0)),
        ResetBasePositionAndOrientation (next_body (sim w0)) (0, 0, 0) (0, 0, 0, 1)] \<and>
     np_random w' = np_random w0"
proof -
  let ?w1 = "py_seed lib (hf_random_seed self) w0"
  let ?w2 = "log_call (ConfigureDebugVisualizer COV_ENABLE_RENDERING 0) ?w1"
  let ?bn = "block_noise (hf_num_rows self) (hf_num_columns self) (hf_height_range self * 5)"
  from block_noise_total[of "hf_num_rows self" "hf_num_columns self" "hf_height_range self * 5" ?w2]
  obtain d w3 where b: "?bn ?w2 = (Inr d, w3)" "sim w3 = sim ?w2" "np_random w3 = np_random ?w2"
    by blast
  have "py_random ?w2 = py_random ?w1" by (simp add: log_call_def)
  from block_noise_py_random[OF this, of "hf_num_rows self" "hf_num_columns self" "hf_height_range self * 5"] b(1)
  have d: "fst (?bn ?w1) = Inr d" by simp
  have s: "sim w3 = (sim w0)\<lparr>calls := calls (sim w0) @ [ConfigureDebugVisualizer COV_ENABLE_RENDERING 0]\<rparr>"
    using b(2) by (simp add: log_call_def sim_py_seed)
  have n: "np_random w3 = np_random w0"
    using b(3) by (simp add: log_call_def np_random_py_seed)
  show ?thesis
    apply (simp add: hf_build_scene_def Let_def engine_do_Some b(1) engine_new_shape_Some
          engine_new_body_Some d)
    apply (simp add: log_call_def s n)
    done
qed

lemma generate_terrain_rest_random:
  assumes "terrain_source self = ''random''"
  shows "\<exists>d w'. fst (block_noise (rows self) (columns self) hpr w0) = Inr d \<and>
     generate_terrain_rest self env hpr w0 =
       (Inr (), self\<lparr>terrain_shape := Attr (next_shape (sim w0))\<rparr>, w') \<and>
     calls (sim w') = calls (sim w0) @
       [ConfigureDebugVisualizer COV_ENABLE_RENDERING 0,
        CreateCollisionShapeHeightfield (1 / 20, 1 / 20, 1) ((of_int (rows self) - 1) / 2) d
          (rows self) (columns self),
        CreateMultiBody 0 (next_shape (sim w0)),
        ResetBasePositionAndOrientation (next_body (sim w0)) (0, 0, 0) (0, 0, 0, 1),
        ChangeVisualShape (next_body (sim w0)) (- 1) [1, 1, 1, 1]]"
proof -
  let ?w1 = "log_call (ConfigureDebugVisualizer COV_ENABLE_RENDERING 0) w0"
  let ?bn = "block_noise (rows self) (columns self) hpr"
  from block_noise_total[of "rows self" "columns self" hpr ?w1]
  obtain d w2 where b: "?bn ?w1 = (Inr d, w2)" "sim w2 = sim ?w1" by blast
  have "py_random ?w1 = py_random w0" by (simp add: log_call_def)
  from block_noise_py_random[OF this, of "rows self" "columns self" hpr] b(1)
  have d: "fst (?bn w0) = Inr d" by simp
  have s: "sim w2 = (sim w0)\<lparr>calls := calls (sim w0) @ [ConfigureDebugVisualizer COV_ENABLE_RENDERING 0]\<rparr>"
    using b(2) by (simp add: log_call_def)
  show ?thesis
    apply (simp add: generate_terrain_rest_def Let_def engine_do_Some b(1) engine_new_shape_Some
          engine_new_body_Some d assms)
    apply (simp add: log_call_def s)
    done
qed

subsection \<open>The heights follow the seed\<close>

text \<open>
  \<^verbatim>\<open>RandomHeightFieldTerrain.build_scene\<close> seeds before it draws: with one integer seed and
  the same grid, two builds submit the same heights, whatever the worlds they run in.
\<close>

lemma hf_heights_follow_seed:
  assumes "hf_random_seed s1 = Some k" "hf_random_seed s2 = Some k"
    "hf_num_rows s1 = hf_num_rows s2" "hf_num_columns s1 = hf_num_columns s2"
    "hf_height_range s1 = hf_height_range s2"
  shows "\<exists>d s1' s2' w1' w2'.
            hf_build_scene lib s1 (Some c1) w1 = (Inr (), s1', w1') \<and>
            hf_build_scene lib s2 (Some c2) w2 = (Inr (), s2', w2') \<and>
            submitted_heightfields w1' = submitted_heightfields w1 @ [d] \<and>
            submitted_heightfields w2' = submitted_heightfields w2 @ [d]"
proof -
  let ?bn = "block_noise (hf_num_rows s1) (hf_num_columns s1) (hf_height_range s1 * 5)"
  from hf_build_scene_Some[of s1 lib w1 c1] obtain d1 w1' where
    b1: "fst (?bn (py_seed lib (Some k) w1)) = Inr d1"
        "hf_build_scene lib s1 (Some c1) w1 =
           (Inr (), s1\<lparr>hf_pybullet_client := Attr (Some c1), hf_floor_id := Attr (next_body (sim w1))\<rparr>, w1')"
        "calls (sim w1') = calls (sim w1) @
           [ConfigureDebugVisualizer COV_ENABLE_RENDERING 0,
            CreateCollisionShapeHeightfield (1 / 50, 1 / 50, 1) ((of_int (hf_num_rows s1) - 1) / 2) d1
              (hf_num_rows s1) (hf_num_columns s1),
            CreateMultiBody 0 (next_shape (sim w1)),
            ResetBasePositionAndOrientation (next_body (sim w1)) (0, 0, 0) (0, 0, 0, 1)]"
    unfolding assms(1) by blast
  from hf_build_scene_Some[of s2 lib w2 c2] obtain d2 w2' where
    b2: "fst (?bn (py_seed lib (Some k) w2)) = Inr d2"
        "hf_build_scene lib s2 (Some c2) w2 =
           (Inr (), s2\<lparr>hf_pybullet_client := Attr (Some c2), hf_floor_id := Attr (next_body (sim w2))\<rparr>, w2')"
        "calls (sim w2') = calls (sim w2) @
           [ConfigureDebugVisualizer COV_ENABLE_RENDERING 0,
            CreateCollisionShapeHeightfield (1 / 50, 1 / 50, 1) ((of_int (hf_num_rows s2) - 1) / 2) d2
              (hf_num_rows s2) (hf_num_columns s2),
            CreateMultiBody 0 (next_shape (sim w2)),
            ResetBasePositionAndOrientation (next_body (sim w2)) (0, 0, 0) (0, 0, 0, 1)]"
    unfolding assms(2) assms(3)[symmetric] assms(4)[symmetric] assms(5)[symmetric] by blast
  have "py_random (py_seed lib (Some k) w1) = py_random (py_seed lib (Some k) w2)"
    by (simp add: py_random_py_seed_Some)
  from block_noise_py_random[OF this, of "hf_num_rows s1" "hf_num_columns s1" "hf_height_range s1 * 5"]
  have d: "d2 = d1" using b1(1) b2(1) by simp
  have "submitted_heightfields w1' = submitted_heightfields w1 @ [d1]"
    using submitted_heightfields_append[OF b1(3)] by (simp add: map_filter_def)
  moreover have "submitted_heightfields w2' = submitted_heightfields w2 @ [d1]"
    using submitted_heightfields_append[OF b2(3)] by (simp add: map_filter_def d)
  ultimately show ?thesis using b1(2) b2(2) by blast
qed

section \<open>Evaluation at the sample inputs\<close>

lemmas eval_defs = ss_build_scene_def hf_build_scene_def Let_def np_uniform_def py_uniform_def uniform_def
  random_sample_def build_one_stepstone_def build_random_stepstones_def load_box_def
  engine_do_def engine_new_shape_def engine_new_body_def log_call_def np_seed_def py_seed_def
  demo_lib_def demo_world_def default_scene_def default_args_def new_scene_def ss_stone_bounds_def
  cycle_color_def GRAY_def block_noise_def write_block_def set_item_def
  RandomHeightFieldTerrain_init_def submitted_heightfields_def List.map_filter_def

lemma upt_0_2: "[0..<2] = [0, 1]"
  by (simp add: upt_conv_Cons)

lemma replicate_4: "replicate 4 x = [x, x, x, x]"
  by (simp add: numeral_eq_Suc)

lemma hf_eval:
  "hf_build_scene demo_lib (demo_hf_scene hr rb) (Some 0) (demo_world n b) =
     (Inr (), (demo_hf_scene hr rb)\<lparr>hf_pybullet_client := Attr (Some 0), hf_floor_id := Attr b\<rparr>,
      \<lparr>py_random = siterate (\<lambda>n. n + 2 ^ 50) (2 * 2 ^ 50), np_random = sconst n,
       os_entropy = sconst (sconst 0),
       sim = \<lparr>calls =
               [ConfigureDebugVisualizer COV_ENABLE_RENDERING 0,
                CreateCollisionShapeHeightfield (1 / 50, 1 / 50, 1) (1 / 2)
                  [hr * 5 / 8, hr * 5 / 8, hr * 5 / 8, hr * 5 / 8] 2 2,
                CreateMultiBody 0 b,
                ResetBasePositionAndOrientation b (0, 0, 0) (0, 0, 0, 1)],
              next_shape = b + 1, next_body = b + 1\<rparr>\<rparr>)"
  by (simp add: eval_defs demo_hf_scene_def replicate_4)

section \<open>The synthesized grid\<close>

text \<open>
  C5: every synthesized grid satisfies the block invariant. The loop never fails; the
  grid it returns has \<open>rows * columns\<close> cells, and for every block index \<open>(i, j)\<close> with
  \<open>2i + 1 < rows\<close> and \<open>2j + 1 < columns\<close> the cells at \<open>2i + 1 + 2j * rows\<close>,
  \<open>2i + (2j + 1) * rows\<close> and \<open>2i + 1 + (2j + 1) * rows\<close> hold the value of the cell at
  \<open>2i + 2j * rows\<close>. This holds of the loop for any upper end, of the grid that
  \<^verbatim>\<open>RandomHeightFieldTerrain.build_scene\<close> submits through a valid handle, and of the grid
  that the statements of \<^verbatim>\<open>Terrain.generate_terrain\<close> after the first submit for the source
  \<^verbatim>\<open>'random'\<close>.
\<close>

theorem heightfield_blocks_constant:
  "(\<exists>d w'. block_noise nr nc hi w = (Inr d, w') \<and> blocks_constant (nat nr) (nat nc) d) \<and>
   (\<exists>d self' w'. hf_build_scene lib self (Some c) w = (Inr (), self', w') \<and>
        submitted_heightfields w' = submitted_heightfields w @ [d] \<and>
        blocks_constant (nat (hf_num_rows self)) (nat (hf_num_columns self)) d) \<and>
   (\<exists>d t' w'. generate_terrain_rest (t\<lparr>terrain_source := ''random''\<rparr>) env hpr w = (Inr (), t', w') \<and>
        submitted_heightfields w' = submitted_heightfields w @ [d] \<and>
        blocks_constant (nat (rows t)) (nat (columns t)) d)"
proof (intro conjI)
  show "\<exists>d w'. block_noise nr nc hi w = (Inr d, w') \<and> blocks_constant (nat nr) (nat nc) d"
    using block_noise_total[of nr nc hi w] by blast
next
  let ?w1 = "py_seed lib (hf_random_seed self) w"
  from hf_build_scene_Some[of self lib w c] obtain d self' w' where
    b: "fst (block_noise (hf_num_rows self) (hf_num_columns self) (hf_height_range self * 5) ?w1) = Inr d"
       "hf_build_scene lib self (Some c) w = (Inr (), self', w')"
       "calls (sim w') = calls (sim w) @
         [ConfigureDebugVisualizer COV_ENABLE_RENDERING 0,
          CreateCollisionShapeHeightfield (1 / 50, 1 / 50, 1) ((of_int (hf_num_rows self) - 1) / 2) d
            (hf_num_rows self) (hf_num_columns self),
          CreateMultiBody 0 (next_shape (sim w)),
          ResetBasePositionAndOrientation (next_body (sim w)) (0, 0, 0) (0, 0, 0, 1)]"
    by blast
  from block_noise_total[of "hf_num_rows self" "hf_num_columns self" "hf_height_range self * 5" ?w1] b(1)
  have "blocks_constant (nat (hf_num_rows self)) (nat (hf_num_columns self)) d" by auto
  moreover have "submitted_heightfields w' = submitted_heightfields w @ [d]"
    using submitted_heightfields_append[OF b(3)] by (simp add: map_filter_def)
  ultimately show "\<exists>d self' w'. hf_build_scene lib self (Some c) w = (Inr (), self', w') \<and>
        submitted_heightfields w' = submitted_heightfields w @ [d] \<and>
        blocks_constant (nat (hf_num_rows self)) (nat (hf_num_columns self)) d"
    using b(2) by blast
next
  let ?t = "t\<lparr>terrain_source := ''random''\<rparr>"
  have src: "terrain_source ?t = ''random''" by simp
  from generate_terrain_rest_random[OF src, of hpr w env] obtain d t' w' where
    b: "fst (block_noise (rows t) (columns t) hpr w) = Inr d"
       "generate_terrain_rest ?t env hpr w = (Inr (), t', w')"
       "calls (sim w') = calls (sim w) @
         [ConfigureDebugVisualizer COV_ENABLE_RENDERING 0,
          CreateCollisionShapeHeightfield (1 / 20, 1 / 20, 1) ((of_int (rows t) - 1) / 2) d
            (rows t) (columns t),
          CreateMultiBody 0 (next_shape (sim w)),
          ResetBasePositionAndOrientation (next_body (sim w)) (0, 0, 0) (0, 0, 0, 1),
          ChangeVisualShape (next_body (sim w)) (- 1) [1, 1, 1, 1]]"
    by auto
  from block_noise_total[of "rows t" "columns t" hpr w] b(1)
  have "blocks_constant (nat (rows t)) (nat (columns t)) d" by auto
  moreover have "submitted_heightfields w' = submitted_heightfields w @ [d]"
    using submitted_heightfields_append[OF b(3)] by (simp add: map_filter_def)
  ultimately show "\<exists>d t' w'. generate_terrain_rest ?t env hpr w = (Inr (), t', w') \<and>
        submitted_heightfields w' = submitted_heightfields w @ [d] \<and>
        blocks_constant (nat (rows t)) (nat (columns t)) d"
    using b(2) by blast
qed

text \<open>The invariant at a grid of two rows and two columns, whose only block is \<open>(0, 0)\<close>.\<close>

theorem heightfield_blocks_constant_witness:
  "\<exists>d w'. block_noise 2 2 (1 / 2) (demo_world (2 ^ 52) 0) = (Inr d, w') \<and>
      length d = 4 \<and> (2 * 0 + 1 < nat 2 \<and> 2 * 0 + 1 < nat 2) \<and>
      d ! 1 = d ! 0 \<and> d ! 2 = d ! 0 \<and> d ! 3 = d ! 0"
proof -
  from heightfield_blocks_constant[of 2 2 "1 / 2" "demo_world (2 ^ 52) 0"] obtain d w' where
    b: "block_noise 2 2 (1 / 2) (demo_world (2 ^ 52) 0) = (Inr d, w')"
       "blocks_constant (nat 2) (nat 2) d" by blast
  from b(2) have "length d = 4" by (simp add: blocks_constant_def)
  moreover from b(2) have "2 * 0 + 1 < nat 2 \<and> 2 * 0 + 1 < nat 2 \<longrightarrow>
      d ! (2 * 0 + 1 + 2 * 0 * nat 2) = d ! (2 * 0 + 2 * 0 * nat 2) \<and>
      d ! (2 * 0 + (2 * 0 + 1) * nat 2) = d ! (2 * 0 + 2 * 0 * nat 2) \<and>
      d ! (2 * 0 + 1 + (2 * 0 + 1) * nat 2) = d ! (2 * 0 + 2 * 0 * nat 2)"
    unfolding blocks_constant_def by blast
  then have "d ! 1 = d ! 0 \<and> d ! 2 = d ! 0 \<and> d ! 3 = d ! 0"
    by (simp add: numeral_2_eq_2 numeral_3_eq_3)
  ultimately show ?thesis using b(1) by simp
qed

text \<open>
  C6, amended: when the configured range is positive, every height of the submitted
  grid lies in the half-open interval from 0 to the upper end of the draw, which is
  \<open>5 * height_range\<close> for \<^verbatim>\<open>RandomHeightFieldTerrain.build_scene\<close> and
  \<^verbatim>\<open>height_perturbation_range\<close> for the loop of \<^verbatim>\<open>Terrain.generate_terrain\<close>.
\<close>

theorem heights_in_positive_range:
  assumes "0 < hf_height_range self" "0 < hpr"
  shows "(\<exists>d self' w'. hf_build_scene lib self (Some c) w = (Inr (), self', w') \<and>
            submitted_heightfields w' = submitted_heightfields w @ [d] \<and>
            (\<forall>h \<in> set d. 0 \<le> h \<and> h < 5 * hf_height_range self)) \<and>
         (\<exists>d t' w'. generate_terrain_rest (t\<lparr>terrain_source := ''random''\<rparr>) env hpr w = (Inr (), t', w') \<and>
            submitted_heightfields w' = submitted_heightfields w @ [d] \<and>
            (\<forall>h \<in> set d. 0 \<le> h \<and> h < hpr))"
proof (intro conjI)
  let ?w1 = "py_seed lib (hf_random_seed self) w"
  from hf_build_scene_Some[of self lib w c] obtain d self' w' where
    b: "fst (block_noise (hf_num_rows self) (hf_num_columns self) (hf_height_range self * 5) ?w1) = Inr d"
       "hf_build_scene lib self (Some c) w = (Inr (), self', w')"
       "calls (sim w') = calls (sim w) @
         [ConfigureDebugVisualizer COV_ENABLE_RENDERING 0,
          CreateCollisionShapeHeightfield (1 / 50, 1 / 50, 1) ((of_int (hf_num_rows self) - 1) / 2) d
            (hf_num_rows self) (hf_num_columns self),
          CreateMultiBody 0 (next_shape (sim w)),
          ResetBasePositionAndOrientation (next_body (sim w)) (0, 0, 0) (0, 0, 0, 1)]"
    by blast
  have "0 < hf_height_range self * 5" using assms(1) by simp
  with block_noise_total[of "hf_num_rows self" "hf_num_columns self" "hf_height_range self * 5" ?w1] b(1)
  have "in_range (hf_height_range self * 5) d" by auto
  then have "\<forall>h \<in> set d. 0 \<le> h \<and> h < 5 * hf_height_range self"
    by (simp add: in_range_def mult.commute)
  moreover have "submitted_heightfields w' = submitted_heightfields w @ [d]"
    using submitted_heightfields_append[OF b(3)] by (simp add: map_filter_def)
  ultimately show "\<exists>d self' w'. hf_build_scene lib self (Some c) w = (Inr (), self', w') \<and>
            submitted_heightfields w' = submitted_heightfields w @ [d] \<and>
            (\<forall>h \<in> set d. 0 \<le> h \<and> h < 5 * hf_height_range self)"
    using b(2) by blast
next
  let ?t = "t\<lparr>terrain_source := ''random''\<rparr>"
  have src: "terrain_source ?t = ''random''" by simp
  from generate_terrain_rest_random[OF src, of hpr w env] obtain d t' w' where
    b: "fst (block_noise (rows t) (columns t) hpr w) = Inr d"
       "generate_terrain_rest ?t env hpr w = (Inr (), t', w')"
       "calls (sim w') = calls (sim w) @
         [ConfigureDebugVisualizer COV_ENABLE_RENDERING 0,
          CreateCollisionShapeHeightfield (1 / 20, 1 / 20, 1) ((of_int (rows t) - 1) / 2) d
            (rows t) (columns t),
          CreateMultiBody 0 (next_shape (sim w)),
          ResetBasePositionAndOrientation (next_body (sim w)) (0, 0, 0) (0, 0, 0, 1),
          ChangeVisualShape (next_body (sim w)) (- 1) [1, 1, 1, 1]]"
    by auto
  from block_noise_total[of "rows t" "columns t" hpr w] b(1) assms(2)
  have "in_range hpr d" by auto
  then have "\<forall>h \<in> set d. 0 \<le> h \<and> h < hpr" by (simp add: in_range_def)
  moreover have "submitted_heightfields w' = submitted_heightfields w @ [d]"
    using submitted_heightfields_append[OF b(3)] by (simp add: map_filter_def)
  ultimately show "\<exists>d t' w'. generate_terrain_rest ?t env hpr w = (Inr (), t', w') \<and>
            submitted_heightfields w' = submitted_heightfields w @ [d] \<and>
            (\<forall>h \<in> set d. 0 \<le> h \<and> h < hpr)"
    using b(2) by blast
qed

text \<open>The bound at the range \<open>1 / 10\<close>, in a fresh engine.\<close>

theorem heights_in_positive_range_witness:
  "(0::rat) < 1 / 10 \<and>
   (\<exists>d self' w'. hf_build_scene demo_lib (demo_hf_scene (1 / 10) True) (Some 0) (demo_world 0 0)
                     = (Inr (), self', w') \<and>
        submitted_heightfields w' = [d] \<and> (\<forall>h \<in> set d. 0 \<le> h \<and> h < 5 * (1 / 10)))"
proof -
  have h: "0 < hf_height_range (demo_hf_scene (1 / 10) True)" "(0::rat) < 1 / 10"
    by (simp_all add: demo_hf_scene_def RandomHeightFieldTerrain_init_def)
  have e: "submitted_heightfields (demo_world 0 0) = []"
    by (simp add: submitted_heightfields_def demo_world_def map_filter_def)
  from heights_in_positive_range[OF h, of demo_lib 0 "demo_world 0 0"] e
  show ?thesis by (simp add: demo_hf_scene_def RandomHeightFieldTerrain_init_def)
qed

text \<open>
  C6 as stated fails for a range that is not positive: with \<^verbatim>\<open>height_range = 0\<close> the
  draw is \<^verbatim>\<open>random.uniform(0, 0)\<close>, every height written is 0, and 0 does not lie in the
  empty interval \<open>[0, 5 * 0)\<close>.
\<close>

theorem zero_height_range_counterexample:
  "submitted_heightfields
     (snd (snd (hf_build_scene demo_lib (demo_hf_scene 0 True) (Some 0) (demo_world 0 0))))
     = [[0, 0, 0, 0]] \<and>
   \<not> ((0::rat) \<le> 0 \<and> (0::rat) < 5 * hf_height_range (demo_hf_scene 0 True))"
  unfolding hf_eval
  by (simp add: submitted_heightfields_def map_filter_def demo_hf_scene_def
        RandomHeightFieldTerrain_init_def)

section \<open>The constructor and the accessors\<close>

lemma check_colors_ValueError:
  "check_colors cs = Inl ValueError \<longleftrightarrow> (\<exists>color \<in> set cs. length color \<noteq> 4)"
  by (induction cs) auto

lemma check_colors_Inr:
  "check_colors cs = Inr () \<longleftrightarrow> (\<forall>color \<in> set cs. length color = 4)"
  by (induction cs) auto

text \<open>
  C3, amended: constructing a \<^verbatim>\<open>RandomStepstoneScene\<close> raises ValueError exactly when
  some colour of the palette does not have four components, and returns the new object
  exactly when every colour has four; in both cases the world is returned as it was
  given, so no random value has been drawn and no engine call made. The components are
  not compared with 0 or 1.
\<close>

theorem init_validates_channel_count:
  "snd (RandomStepstoneScene_init args w) = w \<and>
   (fst (RandomStepstoneScene_init args w) = Inl ValueError \<longleftrightarrow>
      (\<exists>color \<in> set (arg_color_sequence args). length color \<noteq> 4)) \<and>
   (fst (RandomStepstoneScene_init args w) = Inr (new_scene args) \<longleftrightarrow>
      (\<forall>color \<in> set (arg_color_sequence args). length color = 4))"
  using check_colors_ValueError[of "arg_color_sequence args"] check_colors_Inr[of "arg_color_sequence args"]
  by (auto simp: RandomStepstoneScene_init_def split: sum.splits)

text \<open>A palette with a colour of three components is refused, one of two RGBA colours is accepted.\<close>

theorem init_validates_channel_count_witness:
  "fst (RandomStepstoneScene_init (default_args 3 (Some 7) [[1, 0, 0], [0, 1, 0, 1]] True) (demo_world 0 0))
     = Inl ValueError \<and>
   fst (RandomStepstoneScene_init (default_args 3 (Some 7) [[1, 0, 0, 1], [0, 1, 0, 1]] True) (demo_world 0 0))
     = Inr (default_scene 3 (Some 7) [[1, 0, 0, 1], [0, 1, 0, 1]] True) \<and>
   snd (RandomStepstoneScene_init (default_args 3 (Some 7) [[1, 0, 0], [0, 1, 0, 1]] True) (demo_world 0 0))
     = demo_world 0 0"
  using init_validates_channel_count[of "default_args 3 (Some 7) [[1, 0, 0], [0, 1, 0, 1]] True" "demo_world 0 0"]
        init_validates_channel_count[of "default_args 3 (Some 7) [[1, 0, 0, 1], [0, 1, 0, 1]] True" "demo_world 0 0"]
  by (simp add: default_args_def default_scene_def)

text \<open>
  C3 as stated fails for a component outside \<open>[0, 1]\<close>: the palette whose only colour
  is \<open>(2, 0, 0, 1)\<close> is accepted and the object is constructed.
\<close>

theorem out_of_range_component_counterexample:
  "RandomStepstoneScene_init (default_args 3 (Some 7) [[2, 0, 0, 1]] True) (demo_world 0 0)
     = (Inr (default_scene 3 (Some 7) [[2, 0, 0, 1]] True), demo_world 0 0)"
  by (simp add: RandomStepstoneScene_init_def default_args_def default_scene_def)

subsection \<open>A build without a handle\<close>

lemma ss_build_scene_None:
  "\<exists>w'. ss_build_scene lib self None w = (Inl AttributeError, self\<lparr>ss_pybullet_client := Attr None\<rparr>, w')"
  by (simp add: ss_build_scene_def Let_def np_uniform_world build_one_stepstone_def load_box_def
        engine_new_shape_def)

lemma hf_build_scene_None:
  "\<exists>w'. hf_build_scene lib self None w = (Inl AttributeError, self\<lparr>hf_pybullet_client := Attr None\<rparr>, w')"
  by (simp add: hf_build_scene_def Let_def engine_do_def)

text \<open>
  C2, amended: the ground-height accessor has no precondition and returns 0.0 on every
  scene object, built or not. The engine-handle accessor raises its precondition error,
  ValueError, whenever the handle stored in the object is \<^verbatim>\<open>None\<close>, as it is after
  \<^verbatim>\<open>build_scene(None)\<close>, which itself fails; and it never returns a default: what it returns
  is the handle that \<^verbatim>\<open>build_scene\<close> stored. Both scenes behave so. (What the accessor does
  on an object whose handle was never assigned is left open here.)
\<close>

theorem accessor_preconditions:
  "ss_ground_height s = Inr 0 \<and> hf_ground_height t = Inr 0 \<and>
   (ss_pybullet_client s = Attr None \<longrightarrow> ss_pybullet_client_property s = Inl ValueError) \<and>
   (hf_pybullet_client t = Attr None \<longrightarrow> hf_pybullet_client_property t = Inl ValueError) \<and>
   (ss_pybullet_client_property s = Inr c \<longrightarrow> ss_pybullet_client s = Attr (Some c)) \<and>
   (hf_pybullet_client_property t = Inr c \<longrightarrow> hf_pybullet_client t = Attr (Some c)) \<and>
   fst (ss_build_scene lib s None w) = Inl AttributeError \<and>
   ss_pybullet_client_property (fst (snd (ss_build_scene lib s None w))) = Inl ValueError \<and>
   fst (hf_build_scene lib t None w) = Inl AttributeError \<and>
   hf_pybullet_client_property (fst (snd (hf_build_scene lib t None w))) = Inl ValueError"
proof -
  obtain w1 where 1: "ss_build_scene lib s None w =
      (Inl AttributeError, s\<lparr>ss_pybullet_client := Attr None\<rparr>, w1)"
    using ss_build_scene_None by blast
  obtain w2 where 2: "hf_build_scene lib t None w =
      (Inl AttributeError, t\<lparr>hf_pybullet_client := Attr None\<rparr>, w2)"
    using hf_build_scene_None by blast
  show ?thesis
    unfolding 1 2
    by (auto simp: ss_ground_height_def hf_ground_height_def ss_pybullet_client_property_def
          hf_pybullet_client_property_def get_attr_def split: attr.splits option.splits)
qed

text \<open>
  Each scene after \<^verbatim>\<open>build_scene(None)\<close>, where the accessor raises ValueError, and after
  a build through the handle 0, where it returns 0.
\<close>

theorem accessor_preconditions_witness:
  "ss_pybullet_client (fst (snd (ss_build_scene demo_lib (default_scene 1 (Some 1) [[1, 0, 0, 1]] True)
       None (demo_world 0 0)))) = Attr None \<and>
   ss_pybullet_client_property (fst (snd (ss_build_scene demo_lib
       (default_scene 1 (Some 1) [[1, 0, 0, 1]] True) None (demo_world 0 0)))) = Inl ValueError \<and>
   ss_pybullet_client_property (fst (snd (ss_build_scene demo_lib
       (default_scene 1 (Some 1) [[1, 0, 0, 1]] True) (Some 0) (demo_world 0 0)))) = Inr 0 \<and>
   ss_pybullet_client (fst (snd (ss_build_scene demo_lib (default_scene 1 (Some 1) [[1, 0, 0, 1]] True)
       (Some 0) (demo_world 0 0)))) = Attr (Some 0) \<and>
   hf_pybullet_client (fst (snd (hf_build_scene demo_lib (demo_hf_scene (1 / 10) True)
       None (demo_world 0 0)))) = Attr None \<and>
   hf_pybullet_client_property (fst (snd (hf_build_scene demo_lib (demo_hf_scene (1 / 10) True)
       None (demo_world 0 0)))) = Inl ValueError \<and>
   hf_pybullet_client_property (fst (snd (hf_build_scene demo_lib (demo_hf_scene (1 / 10) True)
       (Some 0) (demo_world 0 0)))) = Inr 0 \<and>
   hf_pybullet_client (fst (snd (hf_build_scene demo_lib (demo_hf_scene (1 / 10) True)
       (Some 0) (demo_world 0 0)))) = Attr (Some 0)"
proof -
  let ?s = "default_scene 1 (Some 1) [[1, 0, 0, 1]] True" and ?t = "demo_hf_scene (1 / 10) True"
  let ?s1 = "fst (snd (ss_build_scene demo_lib ?s None (demo_world 0 0)))"
  let ?s2 = "fst (snd (ss_build_scene demo_lib ?s (Some 0) (demo_world 0 0)))"
  let ?t1 = "fst (snd (hf_build_scene demo_lib ?t None (demo_world 0 0)))"
  let ?t2 = "fst (snd (hf_build_scene demo_lib ?t (Some 0) (demo_world 0 0)))"
  have a: "ss_pybullet_client ?s1 = Attr None" by (simp add: eval_defs)
  have b: "ss_pybullet_client_property ?s2 = Inr 0"
    by (simp add: eval_defs ss_pybullet_client_property_def get_attr_def)
  have c: "hf_pybullet_client ?t1 = Attr None"
    by (simp add: eval_defs demo_hf_scene_def)
  have d: "hf_pybullet_client_property ?t2 = Inr 0"
    unfolding hf_eval by (simp add: hf_pybullet_client_property_def get_attr_def)
  from accessor_preconditions[of ?s1 ?t1] a c
  have 1: "ss_pybullet_client_property ?s1 = Inl ValueError"
          "hf_pybullet_client_property ?t1 = Inl ValueError" by blast+
  from accessor_preconditions[of ?s2 ?t2 0] b d
  have 2: "ss_pybullet_client ?s2 = Attr (Some 0)" "hf_pybullet_client ?t2 = Attr (Some 0)"
    by blast+
  from a b c d 1 2 show ?thesis by blast
qed

text \<open>
  C2 as stated fails for the ground-height accessor: on objects that have never been
  built it returns 0.0 instead of failing.
\<close>

theorem ground_height_before_build_counterexample:
  "ss_ground_height (default_scene 10 None [[1, 0, 0, 1]] True) = Inr 0 \<and>
   hf_ground_height (RandomHeightFieldTerrain_init 1024 128 (3 / 100) (Some 10) [[1, 0, 0, 1]] True) = Inr 0"
  by (simp add: ss_ground_height_def hf_ground_height_def)

section \<open>The stepstone course\<close>

subsection \<open>Loading a box\<close>


lemma add_box_frame [simp]:
  "np_random (add_box he p q col m w) = np_random w"
  "py_random (add_box he p q col m w) = py_random w"
  "os_entropy (add_box he p q col m w) = os_entropy w"
  "next_body (sim (add_box he p q col m w)) = next_body (sim w) + 1"
  "next_shape (sim (add_box he p q col m w)) = next_shape (sim w) + 1"
  "calls (sim (add_box he p q col m w)) =
     calls (sim w) @ box_calls he p q col m (next_shape (sim w)) (next_body (sim w))"
  by (simp_all add: add_box_def)

lemma length_box_calls [simp]: "length (box_calls he p q col m s b) = 3"
  by (simp add: box_calls_def)


subsection \<open>One turn of the stone loop\<close>


subsection \<open>The whole stone loop\<close>



subsection \<open>A build of the stepstone scene through a valid handle\<close>

lemma sim_np_seed [simp]: "sim (np_seed lib a w) = sim w"
  by (simp add: np_seed_def split: option.splits)

lemma np_random_np_seed_Some [simp]: "np_random (np_seed lib (Some k) w) = np_init lib k"
  by (simp add: np_seed_def)

lemma ss_stone_bounds_client [simp]:
  "ss_stone_bounds (self\<lparr>ss_pybullet_client := a\<rparr>) = ss_stone_bounds self"
  by (simp add: ss_stone_bounds_def)





subsection \<open>What a successful build leaves in the object\<close>

lemma ss_build_scene_floor_id:
  "ss_build_scene lib s0 c w0 = (Inr (), s, w1) \<Longrightarrow>
     \<exists>h. ss_floor_id s = Attr h \<and>
         ss_rebuild_scene_during_reset s = ss_rebuild_scene_during_reset s0"
  by (auto simp: ss_build_scene_def Let_def split: prod.splits sum.splits)

lemma hf_build_scene_floor_id:
  "hf_build_scene lib s0 c w0 = (Inr (), s, w1) \<Longrightarrow>
     \<exists>h. hf_floor_id s = Attr h \<and>
         hf_rebuild_scene_during_reset s = hf_rebuild_scene_during_reset s0"
  by (auto simp: hf_build_scene_def Let_def split: prod.splits sum.splits)

section \<open>The built scenes\<close>




text \<open>
  C4: the code at a failing input. Two random stones are built in an engine that has
  already created five bodies: the engine returns the handle 5 for the platform, 6 and
  7 for the stones and 8 for the floor, and \<^verbatim>\<open>step_stones_ids\<close> is stored as \<open>[11, 12]\<close>,
  the sums \<open>5 + 6\<close> and \<open>5 + 7\<close>: two elements, not three, and neither is a handle
  of a stone.
\<close>

theorem step_stones_ids_at_failing_input:
  "ss_step_stones_ids (fst (snd (ss_build_scene demo_lib (default_scene 2 (Some 1) [[1, 0, 0, 1]] True)
       (Some 0) (demo_world 0 5)))) = Attr [11, 12] \<and>
   List.map_filter tinted_body (calls (sim (snd (snd (ss_build_scene demo_lib
       (default_scene 2 (Some 1) [[1, 0, 0, 1]] True) (Some 0) (demo_world 0 5)))))) = [5, 6, 7, 8]"
  by (simp add: eval_defs upt_0_2 map_filter_def)

text \<open>
  C1: the code at a failing input. The stepstone scene is built twice with the same seed
  and the same configuration, in two worlds that differ only in the state of numpy's
  shared stream (about to give 0 in one, 0.5 in the other). The platform, the first box
  of each build, has the half-extents \<open>(3/8, 1, 1/40)\<close> in one and \<open>(7/16, 5/4, 1/40)\<close>
  in the other: platform length 0.75 against 0.875 and stone width 2 against 2.5. Both
  are drawn in \<^verbatim>\<open>build_scene\<close> before the seed is used.
\<close>

theorem stone_width_at_failing_input:
  "hd (calls (sim (snd (snd (ss_build_scene demo_lib (default_scene 1 (Some 1) [[1, 0, 0, 1]] True)
        (Some 0) (demo_world 0 0)))))) = CreateBoxCollisionShape (3 / 8, 1, 1 / 40) \<and>
   hd (calls (sim (snd (snd (ss_build_scene demo_lib (default_scene 1 (Some 1) [[1, 0, 0, 1]] True)
        (Some 0) (demo_world (2 ^ 52) 0)))))) = CreateBoxCollisionShape (7 / 16, 5 / 4, 1 / 40)"
  by (simp add: eval_defs)

text \<open>
  C8: when a build has succeeded and the rebuild flag is false, \<^verbatim>\<open>reset\<close> succeeds, leaves
  the scene object and the world as they are (no engine call, no draw), and reports to
  the environment the ground handle that the build stored. Both scenes behave so.
\<close>

theorem reset_without_rebuild:
  "(ss_build_scene lib s0 c w0 = (Inr (), s, w1) \<and> \<not> ss_rebuild_scene_during_reset s \<longrightarrow>
      (\<exists>h. ss_floor_id s = Attr h \<and>
           ss_reset lib s env w = (Inr (), s, env\<lparr>ground := Some h\<rparr>, w))) \<and>
   (hf_build_scene lib t0 c' v0 = (Inr (), t, v1) \<and> \<not> hf_rebuild_scene_during_reset t \<longrightarrow>
      (\<exists>h. hf_floor_id t = Attr h \<and>
           hf_reset lib t env w = (Inr (), t, env\<lparr>ground := Some h\<rparr>, w)))"
proof (intro conjI impI)
  assume "ss_build_scene lib s0 c w0 = (Inr (), s, w1) \<and> \<not> ss_rebuild_scene_during_reset s"
  then obtain h where "ss_floor_id s = Attr h" "\<not> ss_rebuild_scene_during_reset s"
    using ss_build_scene_floor_id by blast
  then show "\<exists>h. ss_floor_id s = Attr h \<and>
           ss_reset lib s env w = (Inr (), s, env\<lparr>ground := Some h\<rparr>, w)"
    by (simp add: ss_reset_def get_attr_def set_ground_def)
next
  assume "hf_build_scene lib t0 c' v0 = (Inr (), t, v1) \<and> \<not> hf_rebuild_scene_during_reset t"
  then obtain h where "hf_floor_id t = Attr h" "\<not> hf_rebuild_scene_during_reset t"
    using hf_build_scene_floor_id by blast
  then show "\<exists>h. hf_floor_id t = Attr h \<and>
           hf_reset lib t env w = (Inr (), t, env\<lparr>ground := Some h\<rparr>, w)"
    by (simp add: hf_reset_def get_attr_def set_ground_def)
qed

text \<open>A build and a reset of each scene, with the rebuild flag false.\<close>

theorem reset_without_rebuild_witness:
  "(\<exists>s w1 h.
      ss_build_scene demo_lib (default_scene 1 (Some 1) [[1, 0, 0, 1]] False) (Some 0) (demo_world 0 0)
        = (Inr (), s, w1) \<and>
      \<not> ss_rebuild_scene_during_reset s \<and> ss_floor_id s = Attr h \<and>
      ss_reset demo_lib s demo_env w1 = (Inr (), s, demo_env\<lparr>ground := Some h\<rparr>, w1)) \<and>
   (\<exists>t v1 h.
      hf_build_scene demo_lib (demo_hf_scene (1 / 10) False) (Some 0) (demo_world 0 0) = (Inr (), t, v1) \<and>
      \<not> hf_rebuild_scene_during_reset t \<and> hf_floor_id t = Attr h \<and>
      hf_reset demo_lib t demo_env v1 = (Inr (), t, demo_env\<lparr>ground := Some h\<rparr>, v1))"
proof -
  let ?r = "ss_build_scene demo_lib (default_scene 1 (Some 1) [[1, 0, 0, 1]] False) (Some 0) (demo_world 0 0)"
  let ?q = "hf_build_scene demo_lib (demo_hf_scene (1 / 10) False) (Some 0) (demo_world 0 0)"
  have "fst ?r = Inr ()" by (simp add: eval_defs)
  then have r: "?r = (Inr (), fst (snd ?r), snd (snd ?r))" by (metis prod.collapse)
  have nr: "\<not> ss_rebuild_scene_during_reset (fst (snd ?r))" by (simp add: eval_defs)
  have "fst ?q = Inr ()" by (simp add: hf_eval)
  then have q: "?q = (Inr (), fst (snd ?q), snd (snd ?q))" by (metis prod.collapse)
  have nq: "\<not> hf_rebuild_scene_during_reset (fst (snd ?q))"
    unfolding hf_eval by (simp add: demo_hf_scene_def RandomHeightFieldTerrain_init_def)
  from reset_without_rebuild[where lib = demo_lib and env = demo_env
         and ?s0.0 = "default_scene 1 (Some 1) [[1, 0, 0, 1]] False" and c = "Some 0"
         and ?w0.0 = "demo_world 0 0" and s = "fst (snd ?r)" and ?w1.0 = "snd (snd ?r)"
         and w = "snd (snd ?r)"] r nr
  obtain h where h: "ss_floor_id (fst (snd ?r)) = Attr h"
      "ss_reset demo_lib (fst (snd ?r)) demo_env (snd (snd ?r)) =
         (Inr (), fst (snd ?r), demo_env\<lparr>ground := Some h\<rparr>, snd (snd ?r))"
    by blast
  from reset_without_rebuild[where lib = demo_lib and env = demo_env
         and ?t0.0 = "demo_hf_scene (1 / 10) False" and c' = "Some 0"
         and ?v0.0 = "demo_world 0 0" and t = "fst (snd ?q)" and ?v1.0 = "snd (snd ?q)"
         and w = "snd (snd ?q)"] q nq
  obtain h' where h': "hf_floor_id (fst (snd ?q)) = Attr h'"
      "hf_reset demo_lib (fst (snd ?q)) demo_env (snd (snd ?q)) =
         (Inr (), fst (snd ?q), demo_env\<lparr>ground := Some h'\<rparr>, snd (snd ?q))"
    by blast
  from r nr h q nq h' show ?thesis by blast
qed

section \<open>Terrain: the constructor and the generator\<close>

text \<open>
  C9, amended: \<^verbatim>\<open>Terrain.generate_terrain\<close> never completes: for every terrain object,
  environment argument, perturbation range and world it raises in its first statement,
  leaving the object and the world (the engine's record of calls and both streams) as
  they were. When the environment has a client the error is NameError for the name
  \<^verbatim>\<open>pd\<close>, which the module never binds; when it has none the attribute chain, evaluated
  first, raises AttributeError.
\<close>

theorem generate_terrain_never_completes:
  "(\<exists>e. generate_terrain self env height_perturbation_range w = (Inl e, self, w)) \<and>
   generate_terrain self (GymEnv genv) height_perturbation_range w = (Inl (NameError ''pd''), self, w) \<and>
   generate_terrain self NoneClient height_perturbation_range w = (Inl AttributeError, self, w) \<and>
   generate_terrain self NoClientAttribute height_perturbation_range w = (Inl AttributeError, self, w) \<and>
   generate_terrain self PyNone height_perturbation_range w = (Inl AttributeError, self, w)"
  by (cases env)
     (simp_all add: generate_terrain_def client_method_def lookup_name_def module_globals_def
        builtins_used_def)

text \<open>
  C9 as stated fails for an environment whose client is \<^verbatim>\<open>None\<close>: the error is
  AttributeError, raised before the name \<^verbatim>\<open>pd\<close> is looked up, and not NameError.
\<close>

theorem client_less_environment_counterexample:
  "generate_terrain demo_terrain NoneClient (1 / 20) (demo_world 0 0) =
     (Inl AttributeError, demo_terrain, demo_world 0 0)"
  by (simp add: generate_terrain_def client_method_def)

text \<open>
  C10: constructing a \<^verbatim>\<open>Terrain\<close> leaves the shared stream of \<^verbatim>\<open>random\<close> in the state
  that the seed 10 gives, whatever the arguments and whatever the stream was before:
  after any two constructions the state is the same.
\<close>

theorem Terrain_init_reseeds_with_10:
  "py_random (snd (Terrain_init lib s1 i1 c1 r1 w1)) = py_init lib 10 \<and>
   py_random (snd (Terrain_init lib s1 i1 c1 r1 w1)) =
     py_random (snd (Terrain_init lib s2 i2 c2 r2 w2))"
  by (simp add: Terrain_init_def py_seed_def)

end
